theory Spec2Isabelle
  imports Complex_Main "HOL-Library.Multiset" "HOL-Library.Word"
begin

section \<open>Python values and effects\<close>

text \<open>
  The detector of \<^verbatim>\<open>traffic_sign_detector.py\<close> works on Python dictionaries, numpy
  arrays and three libraries (PIL, TensorFlow Lite, the clock). Dictionaries are
  association lists in insertion order. A raised exception is a value carrying the text
  of \<^verbatim>\<open>str(e)\<close>.
\<close>

datatype exn = Exn string

fun message :: "exn \<Rightarrow> string" where
  "message (Exn msg) = msg"

text \<open>
  A float is NaN or a finite number, held as its exact value; infinities are not
  modelled. Floating-point arithmetic is not computed here: subtraction, multiplication,
  division, rounding and the mean are operations of the Python runtime and of numpy,
  taken as they are.

  numpy sorts NaN after every number, \<^verbatim>\<open>np.max\<close> returns NaN when one is present and
  \<^verbatim>\<open>np.argmax\<close> the index of the first NaN: for numpy NaN is the greatest value. This is
  the order \<open>\<le>\<close> on floats below. The comparison operators of Python are another
  matter: \<^verbatim>\<open>v > t\<close> is false whenever \<open>v\<close> is NaN.
\<close>

datatype pyfloat = Fin rat | NaN

instantiation pyfloat :: linorder
begin

definition less_eq_pyfloat :: "pyfloat \<Rightarrow> pyfloat \<Rightarrow> bool" where
  "less_eq_pyfloat a b =
     (case b of NaN \<Rightarrow> True | Fin y \<Rightarrow> (case a of NaN \<Rightarrow> False | Fin x \<Rightarrow> x \<le> y))"

definition less_pyfloat :: "pyfloat \<Rightarrow> pyfloat \<Rightarrow> bool" where
  "less_pyfloat a b =
     (case a of NaN \<Rightarrow> False | Fin x \<Rightarrow> (case b of NaN \<Rightarrow> True | Fin y \<Rightarrow> x < y))"

instance
  by standard (auto simp: less_eq_pyfloat_def less_pyfloat_def split: pyfloat.splits)

end

text \<open>\<^verbatim>\<open>v > t\<close> for a float \<open>v\<close> and a finite \<open>t\<close>.\<close>

definition float_gt :: "pyfloat \<Rightarrow> rat \<Rightarrow> bool" where
  "float_gt v t = (case v of NaN \<Rightarrow> False | Fin x \<Rightarrow> t < x)"

datatype pyval =
    PNone
  | PBool bool
  | PInt int
  | PFloat pyfloat
  | PStr string
  | PList "pyval list"
  | PDict "(string \<times> pyval) list"

type_synonym pydict = "(string \<times> pyval) list"

text \<open>A computation reads and changes the outside world \<open>'w\<close> and returns or raises.\<close>

type_synonym ('a, 'w) py = "'w \<Rightarrow> (exn + 'a) \<times> 'w"

definition py_return :: "'a \<Rightarrow> ('a, 'w) py" where
  "py_return x = (\<lambda>w. (Inr x, w))"

definition py_bind :: "('a, 'w) py \<Rightarrow> ('a \<Rightarrow> ('b, 'w) py) \<Rightarrow> ('b, 'w) py" where
  "py_bind m f = (\<lambda>w. case m w of (Inl e, w') \<Rightarrow> (Inl e, w') | (Inr x, w') \<Rightarrow> f x w')"

definition py_try :: "('a, 'w) py \<Rightarrow> (exn \<Rightarrow> ('a, 'w) py) \<Rightarrow> ('a, 'w) py" where
  "py_try m h = (\<lambda>w. case m w of (Inl e, w') \<Rightarrow> h e w' | (Inr x, w') \<Rightarrow> (Inr x, w'))"

definition py_total :: "('w \<Rightarrow> 'a \<times> 'w) \<Rightarrow> ('a, 'w) py" where
  "py_total f = (\<lambda>w. case f w of (x, w') \<Rightarrow> (Inr x, w'))"

definition py_pure :: "exn + 'a \<Rightarrow> ('a, 'w) py" where
  "py_pure r = (\<lambda>w. (r, w))"

section \<open>The libraries the detector calls\<close>

datatype np_dtype = UInt8 | Float32 | Float64

record ndarray =
  nd_dtype :: np_dtype
  nd_shape :: "nat list"
  nd_data :: "rat list"

text \<open>A PIL image in mode RGB: its size (width, height) and its pixels, row by row.\<close>

record pil_image =
  im_size :: "nat \<times> nat"
  im_pixels :: "(8 word \<times> 8 word \<times> 8 word) list"

text \<open>One entry of \<^verbatim>\<open>get_input_details()\<close> / \<^verbatim>\<open>get_output_details()\<close>.\<close>

record tensor_detail =
  td_index :: nat
  td_shape :: "int list"

text \<open>
  The calls into PIL, TensorFlow Lite, numpy's \<^verbatim>\<open>argsort\<close> (whose order among equal
  scores depends on the sorting kind), the clock and the file writer. \<open>'h\<close> is the
  interpreter handle. The output tensor of a classifier is two-dimensional
  (batch \<open>\<times>\<close> classes), with float32 elements.

  \<open>float32_operand t\<close> is the number numpy compares a float32 element with when the other
  operand is the Python float \<open>t\<close>: \<open>t\<close> rounded to float32 from NumPy 2 on, \<open>t\<close>
  itself before. The float operations are those of binary64: \<open>float_sub\<close> and
  \<open>float_mul\<close> of two floats, \<open>int_truediv\<close> of two integers, \<open>float_round2\<close> for
  \<^verbatim>\<open>round(x, 2)\<close> of a Python float, \<open>np_mean\<close> for \<^verbatim>\<open>np.mean\<close> of a non-empty list of
  floats and \<open>np_float64_round2\<close> for \<^verbatim>\<open>round(x, 2)\<close> of the \<^verbatim>\<open>np.float64\<close> it returns.
\<close>

record ('h, 'w) env =
  Image_open_convert_RGB :: "string \<Rightarrow> ('w \<Rightarrow> (exn + pil_image) \<times> 'w)"
  Image_resize :: "pil_image \<Rightarrow> nat \<times> nat \<Rightarrow> pil_image"
  tflite_Interpreter :: "string \<Rightarrow> ('w \<Rightarrow> (exn + 'h) \<times> 'w)"
  allocate_tensors :: "'h \<Rightarrow> ('w \<Rightarrow> (exn + unit) \<times> 'w)"
  get_input_details :: "'h \<Rightarrow> tensor_detail list"
  get_output_details :: "'h \<Rightarrow> tensor_detail list"
  set_tensor :: "'h \<Rightarrow> nat \<Rightarrow> ndarray \<Rightarrow> ('w \<Rightarrow> (exn + unit) \<times> 'w)"
  invoke :: "'h \<Rightarrow> ('w \<Rightarrow> (exn + unit) \<times> 'w)"
  get_tensor :: "'h \<Rightarrow> nat \<Rightarrow> ('w \<Rightarrow> (exn + pyfloat list list) \<times> 'w)"
  np_argsort :: "pyfloat list \<Rightarrow> nat list"
  float32_operand :: "rat \<Rightarrow> rat"
  float_sub :: "pyfloat \<Rightarrow> pyfloat \<Rightarrow> pyfloat"
  float_mul :: "pyfloat \<Rightarrow> pyfloat \<Rightarrow> pyfloat"
  int_truediv :: "int \<Rightarrow> int \<Rightarrow> pyfloat"
  float_round2 :: "pyfloat \<Rightarrow> pyfloat"
  np_mean :: "pyfloat list \<Rightarrow> pyfloat"
  np_float64_round2 :: "pyfloat \<Rightarrow> pyfloat"
  time_time :: "'w \<Rightarrow> pyfloat \<times> 'w"
  datetime_now_isoformat :: "'w \<Rightarrow> string \<times> 'w"
  json_dump_file :: "string \<Rightarrow> pyval \<Rightarrow> ('w \<Rightarrow> (exn + unit) \<times> 'w)"

text \<open>
  What numpy promises of \<^verbatim>\<open>argsort\<close>: a permutation of the indices that sorts the scores,
  NaN last.
\<close>

definition argsort_ok :: "nat list \<Rightarrow> pyfloat list \<Rightarrow> bool" where
  "argsort_ok idxs s = (mset idxs = mset [0..<length s] \<and> sorted (map (\<lambda>i. s ! i) idxs))"

text \<open>\<^verbatim>\<open>argsort(kind='stable')\<close>: an insertion sort of the indices by score.\<close>

definition argsort_stable :: "pyfloat list \<Rightarrow> nat list" where
  "argsort_stable s = sort_key (\<lambda>i. s ! i) [0..<length s]"

text \<open>
  \<^verbatim>\<open>np.max\<close> and \<^verbatim>\<open>np.argmax\<close> (the first index of the maximum), with NaN the greatest
  value; both raise on an empty array.
\<close>

definition np_max :: "pyfloat list \<Rightarrow> exn + pyfloat" where
  "np_max xs = (case xs of
      [] \<Rightarrow> Inl (Exn ''zero-size array to reduction operation maximum which has no identity'')
    | x # rest \<Rightarrow> Inr (fold max rest x))"

fun argmax_loop :: "pyfloat list \<Rightarrow> nat \<Rightarrow> nat \<Rightarrow> pyfloat \<Rightarrow> nat" where
  "argmax_loop [] i best_i best = best_i"
| "argmax_loop (x # xs) i best_i best =
     (if best < x then argmax_loop xs (Suc i) i x else argmax_loop xs (Suc i) best_i best)"

definition np_argmax :: "pyfloat list \<Rightarrow> exn + nat" where
  "np_argmax xs = (case xs of
      [] \<Rightarrow> Inl (Exn ''attempt to get argmax of an empty sequence'')
    | x # rest \<Rightarrow> Inr (argmax_loop rest 1 0 x))"

text \<open>Indexing: \<^verbatim>\<open>a[i]\<close> of a list or an array raises IndexError out of range.\<close>

definition getitem :: "'a list \<Rightarrow> nat \<Rightarrow> exn + 'a" where
  "getitem xs i = (if i < length xs then Inr (xs ! i) else Inl (Exn ''index out of range''))"

section \<open>The detector\<close>

definition LABELS :: "string list" where
  "LABELS = [
     ''Speed limit (20km/h)'', ''Speed limit (30km/h)'', ''Speed limit (50km/h)'',
     ''Speed limit (60km/h)'', ''Speed limit (70km/h)'', ''Speed limit (80km/h)'',
     ''End of speed limit (80km/h)'', ''Speed limit (100km/h)'', ''Speed limit (120km/h)'',
     ''No passing'', ''No passing veh over 3.5 tons'', ''Right-of-way at intersection'',
     ''Priority road'', ''Yield'', ''Stop'', ''No vehicles'', ''Veh > 3.5 tons prohibited'',
     ''No entry'', ''General caution'', ''Dangerous curve left'', ''Dangerous curve right'',
     ''Double curve'', ''Bumpy road'', ''Slippery road'', ''Road narrows on the right'',
     ''Road work'', ''Traffic signals'', ''Pedestrians'', ''Children crossing'',
     ''Bicycles crossing'', ''Beware of ice/snow'', ''Wild animals crossing'',
     ''End speed + passing limits'', ''Turn right ahead'', ''Turn left ahead'', ''Ahead only'',
     ''Go straight or right'', ''Go straight or left'', ''Keep right'', ''Keep left'',
     ''Roundabout mandatory'', ''End of no passing'', ''End no passing veh > 3.5 tons'']"

text \<open>The fields of \<^verbatim>\<open>self\<close>.\<close>

record 'h detector =
  model_path :: string
  confidence_threshold :: rat
  interpreter :: 'h
  input_details :: "tensor_detail list"
  output_details :: "tensor_detail list"

text \<open>
  \<^verbatim>\<open>__init__\<close> with \<^verbatim>\<open>_load_model\<close>: build the interpreter, allocate its tensors, read the
  input and output details and log their shapes (the log reads entry 0 of each). The
  handler logs and raises the exception again.
\<close>

definition load_model :: "('h, 'w) env \<Rightarrow> string \<Rightarrow> rat \<Rightarrow> ('h detector, 'w) py" where
  "load_model env path threshold =
     py_bind (tflite_Interpreter env path) (\<lambda>h.
     py_bind (allocate_tensors env h) (\<lambda>_.
     py_bind (py_pure (getitem (get_input_details env h) 0)) (\<lambda>_.
     py_bind (py_pure (getitem (get_output_details env h) 0)) (\<lambda>_.
     py_return \<lparr> model_path = path, confidence_threshold = threshold, interpreter = h,
                 input_details = get_input_details env h,
                 output_details = get_output_details env h \<rparr>))))"

text \<open>\<^verbatim>\<open>np.array(image, dtype=np.float32)\<close> of an RGB image: shape (height, width, 3).\<close>

definition np_array_float32 :: "pil_image \<Rightarrow> ndarray" where
  "np_array_float32 img =
     \<lparr> nd_dtype = Float32,
       nd_shape = [snd (im_size img), fst (im_size img), 3],
       nd_data = concat (map (\<lambda>(r, g, b). [of_nat (unat r), of_nat (unat g), of_nat (unat b)])
                   (im_pixels img)) \<rparr>"

definition np_divide :: "ndarray \<Rightarrow> rat \<Rightarrow> ndarray" where
  "np_divide a c = a \<lparr> nd_data := map (\<lambda>x. x / c) (nd_data a) \<rparr>"

definition np_expand_dims0 :: "ndarray \<Rightarrow> ndarray" where
  "np_expand_dims0 a = a \<lparr> nd_shape := 1 # nd_shape a \<rparr>"

definition preprocess_image :: "('h, 'w) env \<Rightarrow> string \<Rightarrow> nat \<times> nat \<Rightarrow> (ndarray, 'w) py" where
  "preprocess_image env image_path target_size' =
     py_bind (Image_open_convert_RGB env image_path) (\<lambda>img.
       let img = Image_resize env img target_size';
           image_array = np_array_float32 img;
           image_array = np_divide image_array 255;
           image_array = np_expand_dims0 image_array
       in py_return image_array)"

text \<open>Lines 117 to 127 of \<^verbatim>\<open>detect_sign\<close>: the output tensor and the time the forward pass took.\<close>

definition run_inference ::
  "('h, 'w) env \<Rightarrow> 'h detector \<Rightarrow> string \<Rightarrow> (pyfloat list list \<times> pyfloat, 'w) py" where
  "run_inference env self image_path =
     py_bind (preprocess_image env image_path (224, 224)) (\<lambda>input_data.
     py_bind (py_total (time_time env)) (\<lambda>start_time.
     py_bind (py_pure (getitem (input_details self) 0)) (\<lambda>d_in.
     py_bind (set_tensor env (interpreter self) (td_index d_in) input_data) (\<lambda>_.
     py_bind (invoke env (interpreter self)) (\<lambda>_.
     py_bind (py_total (time_time env)) (\<lambda>end_time.
     py_bind (py_pure (getitem (output_details self) 0)) (\<lambda>d_out.
     py_bind (get_tensor env (interpreter self) (td_index d_out)) (\<lambda>output_data.
     py_return (output_data, float_sub env end_time start_time)))))))))"

text \<open>The dictionary of one detection (lines 139 to 143 and 151 to 155).\<close>

definition detection_dict :: "nat \<Rightarrow> string \<Rightarrow> pyfloat \<Rightarrow> pyval" where
  "detection_dict class_id label conf =
     PDict [(''class_id'', PInt (int class_id)), (''label'', PStr label),
            (''confidence'', PFloat conf)]"

text \<open>
  The loop of lines 137 to 143 over \<^verbatim>\<open>top_indices\<close>. The test of line 138 compares a
  float32 element of the output with the threshold, so \<open>threshold32\<close> is the threshold as
  numpy takes it into that comparison.
\<close>

fun collect_top :: "pyfloat list \<Rightarrow> rat \<Rightarrow> nat list \<Rightarrow> pyval list \<Rightarrow> exn + pyval list" where
  "collect_top scores threshold32 [] top_predictions = Inr top_predictions"
| "collect_top scores threshold32 (idx # rest) top_predictions =
     (case getitem scores idx of
        Inl e \<Rightarrow> Inl e
      | Inr v \<Rightarrow>
          if float_gt v threshold32 then
            (case getitem LABELS idx of
               Inl e \<Rightarrow> Inl e
             | Inr label \<Rightarrow>
                 collect_top scores threshold32 rest
                   (top_predictions @ [detection_dict idx label v]))
          else collect_top scores threshold32 rest top_predictions)"

definition top_indices_of :: "nat list \<Rightarrow> nat list" where
  "top_indices_of sorted_idx = rev (drop (length sorted_idx - 3) sorted_idx)"

text \<open>
  The body of the \<^verbatim>\<open>try\<close> of \<^verbatim>\<open>detect_sign\<close> (lines 117 to 165). \<^verbatim>\<open>confidence\<close> is a
  Python float, so lines 150 and 155 compare it with the threshold itself.
\<close>

definition detect_sign_body ::
  "('h, 'w) env \<Rightarrow> 'h detector \<Rightarrow> string \<Rightarrow> (pydict, 'w) py" where
  "detect_sign_body env self image_path =
     py_bind (run_inference env self image_path) (\<lambda>(output_data, inference_time).
     py_bind (py_pure (getitem output_data 0)) (\<lambda>scores.
     py_bind (py_pure (np_argmax scores)) (\<lambda>predicted_class.
     py_bind (py_pure (np_max scores)) (\<lambda>confidence.
     py_bind (py_pure (collect_top scores (float32_operand env (confidence_threshold self))
                (top_indices_of (np_argsort env scores)) [])) (\<lambda>top_predictions.
     py_bind (py_total (datetime_now_isoformat env)) (\<lambda>timestamp.
     py_bind (py_pure (if float_gt confidence (confidence_threshold self)
                       then (case getitem LABELS predicted_class of
                               Inl e \<Rightarrow> Inl e
                             | Inr label \<Rightarrow>
                                 Inr (detection_dict predicted_class label confidence))
                       else Inr PNone)) (\<lambda>primary.
     py_bind (py_pure (getitem (input_details self) 0)) (\<lambda>d_in.
     py_return
       [(''image_path'', PStr image_path),
        (''timestamp'', PStr timestamp),
        (''inference_time_ms'',
           PFloat (float_round2 env (float_mul env inference_time (Fin 1000)))),
        (''detected'', PBool (float_gt confidence (confidence_threshold self))),
        (''primary_detection'', primary),
        (''top_predictions'', PList top_predictions),
        (''model_info'', PDict
           [(''model_path'', PStr (model_path self)),
            (''confidence_threshold'', PFloat (Fin (confidence_threshold self))),
            (''input_shape'', PList (map PInt (td_shape d_in))),
            (''total_classes'', PInt (int (length LABELS)))])]))))))))"

text \<open>The handler of lines 167 to 174.\<close>

definition error_record :: "('h, 'w) env \<Rightarrow> string \<Rightarrow> exn \<Rightarrow> (pydict, 'w) py" where
  "error_record env image_path e =
     py_bind (py_total (datetime_now_isoformat env)) (\<lambda>timestamp.
     py_return
       [(''image_path'', PStr image_path),
        (''timestamp'', PStr timestamp),
        (''error'', PStr (message e)),
        (''detected'', PBool False)])"

definition detect_sign :: "('h, 'w) env \<Rightarrow> 'h detector \<Rightarrow> string \<Rightarrow> (pydict, 'w) py" where
  "detect_sign env self image_path =
     py_try (detect_sign_body env self image_path) (error_record env image_path)"

text \<open>\<^verbatim>\<open>detect_batch\<close>: the loop of lines 191 to 194, appending one result per path.\<close>

fun detect_batch_loop ::
  "('h, 'w) env \<Rightarrow> 'h detector \<Rightarrow> string list \<Rightarrow> pydict list \<Rightarrow> (pydict list, 'w) py" where
  "detect_batch_loop env self [] results w = (Inr results, w)"
| "detect_batch_loop env self (image_path # rest) results w =
     (case detect_sign env self image_path w of
        (Inl e, w') \<Rightarrow> (Inl e, w')
      | (Inr result, w') \<Rightarrow> detect_batch_loop env self rest (results @ [result]) w')"

definition detect_batch ::
  "('h, 'w) env \<Rightarrow> 'h detector \<Rightarrow> string list \<Rightarrow> (pydict list, 'w) py" where
  "detect_batch env self image_paths = detect_batch_loop env self image_paths []"

subsection \<open>The report\<close>

text \<open>Truth of a value, \<^verbatim>\<open>r.get(key, default)\<close> and \<^verbatim>\<open>key in r\<close>.\<close>

fun truthy :: "pyval \<Rightarrow> bool" where
  "truthy PNone = False"
| "truthy (PBool b) = b"
| "truthy (PInt i) = (i \<noteq> 0)"
| "truthy (PFloat x) = (x \<noteq> Fin 0)"
| "truthy (PStr s) = (s \<noteq> [])"
| "truthy (PList xs) = (xs \<noteq> [])"
| "truthy (PDict kvs) = (kvs \<noteq> [])"

definition dict_get :: "pydict \<Rightarrow> string \<Rightarrow> pyval \<Rightarrow> pyval" where
  "dict_get r k dflt = (case map_of r k of None \<Rightarrow> dflt | Some v \<Rightarrow> v)"

definition dict_has :: "pydict \<Rightarrow> string \<Rightarrow> bool" where
  "dict_has r k = (map_of r k \<noteq> None)"

text \<open>
  The numbers \<^verbatim>\<open>np.mean\<close> is given, as floats; a value that is no number makes it raise.
\<close>

fun number_of :: "pyval \<Rightarrow> exn + pyfloat" where
  "number_of (PInt i) = Inr (Fin (of_int i))"
| "number_of (PFloat x) = Inr x"
| "number_of (PBool b) = Inr (Fin (if b then 1 else 0))"
| "number_of v = Inl (Exn ''unsupported operand type(s) for +'')"

fun numbers_of :: "pyval list \<Rightarrow> exn + pyfloat list" where
  "numbers_of [] = Inr []"
| "numbers_of (v # vs) =
     (case number_of v of
        Inl e \<Rightarrow> Inl e
      | Inr x \<Rightarrow> (case numbers_of vs of Inl e \<Rightarrow> Inl e | Inr xs \<Rightarrow> Inr (x # xs)))"

text \<open>Lines 207 to 227 of \<^verbatim>\<open>save_results_to_json\<close>: the report that is written.\<close>

definition build_output_data :: "('h, 'w) env \<Rightarrow> pydict list \<Rightarrow> (pyval, 'w) py" where
  "build_output_data env results =
     (let total_detections = length results;
          successful_detections =
            length (filter (\<lambda>r. truthy (dict_get r ''detected'' (PBool False))) results);
          failed_detections = int total_detections - int successful_detections;
          inference_times =
            map (\<lambda>r. dict_get r ''inference_time_ms'' (PInt 0))
              (filter (\<lambda>r. dict_has r ''inference_time_ms'') results)
      in
      py_bind (py_pure (if inference_times \<noteq> []
                        then (case numbers_of inference_times of
                                Inl e \<Rightarrow> Inl e
                              | Inr xs \<Rightarrow> Inr (PFloat (np_mean env xs)))
                        else Inr (PInt 0))) (\<lambda>avg_inference_time.
      py_bind (py_total (datetime_now_isoformat env)) (\<lambda>timestamp.
      py_return (PDict
        [(''detection_summary'', PDict
            [(''total_images'', PInt (int total_detections)),
             (''successful_detections'', PInt (int successful_detections)),
             (''failed_detections'', PInt failed_detections),
             (''success_rate'',
                if 0 < total_detections
                then PFloat (float_round2 env (float_mul env
                       (int_truediv env (int successful_detections) (int total_detections))
                       (Fin 100)))
                else PInt 0),
             (''average_inference_time_ms'',
                case avg_inference_time of
                  PFloat x \<Rightarrow> PFloat (np_float64_round2 env x)
                | v \<Rightarrow> v),
             (''detection_timestamp'', PStr timestamp)]),
         (''detections'', PList (map PDict results))]))))"

definition save_results_to_json ::
  "('h, 'w) env \<Rightarrow> pydict list \<Rightarrow> string \<Rightarrow> (unit, 'w) py" where
  "save_results_to_json env results output_path =
     py_bind (build_output_data env results) (\<lambda>output_data.
       json_dump_file env output_path output_data)"

section \<open>Reading a result\<close>

text \<open>The summary of a written report, and the timings that the records of a batch carry.\<close>

definition summary_field :: "pyval \<Rightarrow> string \<Rightarrow> pyval option" where
  "summary_field output_data k =
     (case output_data of
        PDict report \<Rightarrow>
          (case map_of report ''detection_summary'' of
             Some (PDict summary) \<Rightarrow> map_of summary k
           | _ \<Rightarrow> None)
      | _ \<Rightarrow> None)"

definition timings :: "pydict list \<Rightarrow> pyfloat list" where
  "timings results =
     concat (map (\<lambda>r. case map_of r ''inference_time_ms'' of
                         Some (PFloat x) \<Rightarrow> [x] | _ \<Rightarrow> []) results)"

text \<open>
  A result record as \<^verbatim>\<open>detect_sign\<close> builds it: \<^verbatim>\<open>detected\<close> is a boolean, and the
  inference time, where present, is a float.
\<close>

definition result_record :: "pydict \<Rightarrow> bool" where
  "result_record r =
     ((case map_of r ''detected'' of Some (PBool b) \<Rightarrow> True | _ \<Rightarrow> False) \<and>
      (case map_of r ''inference_time_ms'' of
         None \<Rightarrow> True | Some (PFloat x) \<Rightarrow> True | _ \<Rightarrow> False))"

text \<open>The world in which the batch reaches its next path, after the paths \<open>finished\<close>.\<close>

definition world_after :: "('h, 'w) env \<Rightarrow> 'h detector \<Rightarrow> string list \<Rightarrow> 'w \<Rightarrow> 'w" where
  "world_after env self finished w = fold (\<lambda>p v. snd (detect_sign env self p v)) finished w"

text \<open>The record of a successful run, with \<open>k\<close> the class \<^verbatim>\<open>np.argmax\<close> returned.\<close>

definition success_record ::
  "('h, 'w) env \<Rightarrow> 'h detector \<Rightarrow> string \<Rightarrow> pyfloat list \<Rightarrow> pyfloat \<Rightarrow> string \<Rightarrow> nat \<Rightarrow> pydict"
  where
  "success_record env self p s dt ts k =
       [(''image_path'', PStr p),
        (''timestamp'', PStr ts),
        (''inference_time_ms'', PFloat (float_round2 env (float_mul env dt (Fin 1000)))),
        (''detected'', PBool (float_gt (Max (set s)) (confidence_threshold self))),
        (''primary_detection'',
           if float_gt (Max (set s)) (confidence_threshold self)
           then detection_dict k (LABELS ! k) (Max (set s)) else PNone),
        (''top_predictions'', PList (map (\<lambda>i. detection_dict i (LABELS ! i) (s ! i))
            (filter (\<lambda>i. float_gt (s ! i) (float32_operand env (confidence_threshold self)))
               (top_indices_of (np_argsort env s))))),
        (''model_info'', PDict
           [(''model_path'', PStr (model_path self)),
            (''confidence_threshold'', PFloat (Fin (confidence_threshold self))),
            (''input_shape'', PList (map PInt (td_shape (input_details self ! 0)))),
            (''total_classes'', PInt 43)])]"

section \<open>A small world to run the detector in\<close>

text \<open>
  Binary floating point with a significand of \<open>p\<close> bits, rounding to the nearest, ties
  to even, the exponent unbounded: \<open>p = 24\<close> is float32 and \<open>p = 53\<close> binary64.
\<close>

definition round_half_even :: "rat \<Rightarrow> int" where
  "round_half_even y =
     (let f = \<lfloor>y\<rfloor>; d = y - of_int f
      in if d < 1 / 2 then f else if 1 / 2 < d then f + 1 else if even f then f else f + 1)"

fun normalize :: "nat \<Rightarrow> rat \<Rightarrow> int \<Rightarrow> rat \<times> int" where
  "normalize 0 x e = (x, e)"
| "normalize (Suc n) x e =
     (if 2 \<le> x then normalize n (x / 2) (e + 1)
      else if x < 1 then normalize n (x * 2) (e - 1)
      else (x, e))"

definition pow2 :: "int \<Rightarrow> rat" where
  "pow2 e = (if 0 \<le> e then 2 ^ nat e else 1 / 2 ^ nat (- e))"

definition round_to_precision :: "nat \<Rightarrow> rat \<Rightarrow> rat" where
  "round_to_precision p x =
     (if x = 0 then 0
      else (case normalize 2200 \<bar>x\<bar> 0 of
              (m, e) \<Rightarrow>
                sgn x * of_int (round_half_even (m * 2 ^ (p - 1))) * pow2 e / 2 ^ (p - 1)))"

definition float32 :: "rat \<Rightarrow> rat" where
  "float32 x = round_to_precision 24 x"

definition double :: "rat \<Rightarrow> rat" where
  "double x = round_to_precision 53 x"

text \<open>The operations of binary64 on floats; NaN in, NaN out.\<close>

definition double_op :: "(rat \<Rightarrow> rat \<Rightarrow> rat) \<Rightarrow> pyfloat \<Rightarrow> pyfloat \<Rightarrow> pyfloat" where
  "double_op f a b =
     (case a of NaN \<Rightarrow> NaN | Fin x \<Rightarrow> (case b of NaN \<Rightarrow> NaN | Fin y \<Rightarrow> Fin (double (f x y))))"

text \<open>
  \<^verbatim>\<open>round(x, 2)\<close> of a Python float: the exact value rounded to two decimals, ties to
  even, then the nearest double.
\<close>

definition python_round2 :: "pyfloat \<Rightarrow> pyfloat" where
  "python_round2 a =
     (case a of NaN \<Rightarrow> NaN | Fin x \<Rightarrow> Fin (double (of_int (round_half_even (x * 100)) / 100)))"

text \<open>
  \<^verbatim>\<open>round(x, 2)\<close> of an \<^verbatim>\<open>np.float64\<close>: numpy multiplies by 100, rounds to the nearest
  integer, ties to even, and divides by 100.
\<close>

definition numpy_round2 :: "pyfloat \<Rightarrow> pyfloat" where
  "numpy_round2 a =
     (case a of
        NaN \<Rightarrow> NaN
      | Fin x \<Rightarrow> Fin (double (of_int (round_half_even (double (x * 100))) / 100)))"

text \<open>\<^verbatim>\<open>np.mean\<close> of fewer than eight floats: the sum from left to right, then the quotient.\<close>

definition numpy_mean :: "pyfloat list \<Rightarrow> pyfloat" where
  "numpy_mean xs =
     double_op (/) (fold (\<lambda>x acc. double_op (+) acc x) xs (Fin 0)) (Fin (of_nat (length xs)))"

text \<open>
  The world is a clock that ticks a second at every reading. Every file but
  \<^verbatim>\<open>missing.png\<close> decodes to one red pixel, resizing repeats the first pixel, the model
  outputs the scores it is given, \<^verbatim>\<open>argsort\<close> is the stable one, and arithmetic is that
  of binary64. numpy compares a float32 element with the threshold itself, as before
  NumPy 2.
\<close>

definition demo_env :: "int list \<Rightarrow> int list \<Rightarrow> pyfloat list \<Rightarrow> (unit, nat) env" where
  "demo_env in_shape out_shape scores =
     \<lparr> Image_open_convert_RGB = (\<lambda>path w.
         if path = ''missing.png'' then (Inl (Exn ''No such file or directory''), w)
         else (Inr \<lparr> im_size = (1, 1), im_pixels = [(255, 0, 0)] \<rparr>, w)),
       Image_resize = (\<lambda>img sz.
         \<lparr> im_size = sz, im_pixels = replicate (fst sz * snd sz) (hd (im_pixels img)) \<rparr>),
       tflite_Interpreter = (\<lambda>path w. (Inr (), w)),
       allocate_tensors = (\<lambda>h w. (Inr (), w)),
       get_input_details = (\<lambda>h. [\<lparr> td_index = 0, td_shape = in_shape \<rparr>]),
       get_output_details = (\<lambda>h. [\<lparr> td_index = 1, td_shape = out_shape \<rparr>]),
       set_tensor = (\<lambda>h i a w. (Inr (), w)),
       invoke = (\<lambda>h w. (Inr (), w)),
       get_tensor = (\<lambda>h i w. (Inr [scores], w)),
       np_argsort = argsort_stable,
       float32_operand = (\<lambda>t. t),
       float_sub = double_op (-),
       float_mul = double_op (*),
       int_truediv = (\<lambda>a b. Fin (double (of_int a / of_int b))),
       float_round2 = python_round2,
       np_mean = numpy_mean,
       np_float64_round2 = numpy_round2,
       time_time = (\<lambda>w. (Fin (of_nat w), Suc w)),
       datetime_now_isoformat = (\<lambda>w. (''2024-01-01T00:00:00'', Suc w)),
       json_dump_file = (\<lambda>path v w. (Inr (), w)) \<rparr>"

definition demo_detector :: "int list \<Rightarrow> int list \<Rightarrow> rat \<Rightarrow> unit detector" where
  "demo_detector in_shape out_shape threshold =
     \<lparr> model_path = ''models/gtsrb_model.lite'', confidence_threshold = threshold,
       interpreter = (),
       input_details = [\<lparr> td_index = 0, td_shape = in_shape \<rparr>],
       output_details = [\<lparr> td_index = 1, td_shape = out_shape \<rparr>] \<rparr>"

text \<open>Class 14 (Stop) at 0.98, all others at 0.\<close>

definition stop_scores :: "pyfloat list" where
  "stop_scores = replicate 14 (Fin 0) @ [Fin (98 / 100)] @ replicate 28 (Fin 0)"

text \<open>Classes 0 and 1 tied at 0.4, all others at 0.\<close>

definition tie_scores :: "pyfloat list" where
  "tie_scores = [Fin (4 / 10), Fin (4 / 10)] @ replicate 41 (Fin 0)"

text \<open>Class 0 at NaN, class 1 at 0.75, all others at 0.\<close>

definition nan_scores :: "pyfloat list" where
  "nan_scores = [NaN, Fin (3 / 4)] @ replicate 41 (Fin 0)"

text \<open>Class 0 at the float32 nearest to 0.3, all others at 0.\<close>

definition edge_scores :: "pyfloat list" where
  "edge_scores = [Fin (float32 (3 / 10))] @ replicate 42 (Fin 0)"

text \<open>Classes 0, 1 and 2 at 0.75, 0.5 and 0.375, all others at 0.\<close>

definition three_scores :: "pyfloat list" where
  "three_scores = [Fin (3 / 4), Fin (1 / 2), Fin (3 / 8)] @ replicate 40 (Fin 0)"

definition gtsrb_env :: "pyfloat list \<Rightarrow> (unit, nat) env" where
  "gtsrb_env scores = demo_env [1, 224, 224, 3] [1, 43] scores"

text \<open>
  The same world with numpy comparing a float32 element with the threshold rounded to
  float32, as from NumPy 2 on.
\<close>

definition gtsrb_env_float32 :: "pyfloat list \<Rightarrow> (unit, nat) env" where
  "gtsrb_env_float32 scores = (gtsrb_env scores) \<lparr> float32_operand := float32 \<rparr>"

definition gtsrb_detector :: "rat \<Rightarrow> unit detector" where
  "gtsrb_detector threshold = demo_detector [1, 224, 224, 3] [1, 43] threshold"

section \<open>Facts about the library functions\<close>

lemma LABELS_length: "length LABELS = 43"
  by (simp add: LABELS_def)

lemma np_max_Max: "s \<noteq> [] \<Longrightarrow> np_max s = Inr (Max (set s))"
proof (cases s)
  case Nil
  assume "s \<noteq> []"
  with Nil show ?thesis by simp
next
  case (Cons x xs)
  then show ?thesis
    using Max.set_eq_fold[of x xs] by (simp add: np_max_def)
qed

lemma argmax_loop_inv:
  assumes "i = length pre" "best_i < length pre" "pre ! best_i = best"
    "\<forall>j<length pre. pre ! j \<le> best" "\<forall>j<best_i. pre ! j < best"
  shows "argmax_loop xs i best_i best < length (pre @ xs) \<and>
     (\<forall>j<length (pre @ xs). (pre @ xs) ! j \<le> (pre @ xs) ! argmax_loop xs i best_i best) \<and>
     (\<forall>j<argmax_loop xs i best_i best. (pre @ xs) ! j < (pre @ xs) ! argmax_loop xs i best_i best)"
  using assms
proof (induction xs arbitrary: pre i best_i best)
  case Nil
  then show ?case by simp
next
  case (Cons x xs)
  show ?case
  proof (cases "best < x")
    case True
    have "argmax_loop xs (Suc i) i x < length ((pre @ [x]) @ xs) \<and>
     (\<forall>j<length ((pre @ [x]) @ xs). ((pre @ [x]) @ xs) ! j \<le> ((pre @ [x]) @ xs) ! argmax_loop xs (Suc i) i x) \<and>
     (\<forall>j<argmax_loop xs (Suc i) i x. ((pre @ [x]) @ xs) ! j < ((pre @ [x]) @ xs) ! argmax_loop xs (Suc i) i x)"
      using Cons.prems True
      by (intro Cons.IH) (auto simp: nth_append less_Suc_eq intro: order.strict_trans1 less_imp_le)
    with True show ?thesis by simp
  next
    case False
    have "argmax_loop xs (Suc i) best_i best < length ((pre @ [x]) @ xs) \<and>
     (\<forall>j<length ((pre @ [x]) @ xs). ((pre @ [x]) @ xs) ! j \<le> ((pre @ [x]) @ xs) ! argmax_loop xs (Suc i) best_i best) \<and>
     (\<forall>j<argmax_loop xs (Suc i) best_i best. ((pre @ [x]) @ xs) ! j < ((pre @ [x]) @ xs) ! argmax_loop xs (Suc i) best_i best)"
      using Cons.prems False
      by (intro Cons.IH) (auto simp: nth_append less_Suc_eq)
    with False show ?thesis by simp
  qed
qed

lemma np_argmax_spec:
  assumes "s \<noteq> []"
  shows "\<exists>k. np_argmax s = Inr k \<and> k < length s \<and> s ! k = Max (set s) \<and> (\<forall>j<k. s ! j < s ! k)"
proof -
  from assms obtain x xs where s: "s = x # xs" by (cases s) auto
  let ?k = "argmax_loop xs 1 0 x"
  have inv: "?k < length ([x] @ xs) \<and>
     (\<forall>j<length ([x] @ xs). ([x] @ xs) ! j \<le> ([x] @ xs) ! ?k) \<and>
     (\<forall>j<?k. ([x] @ xs) ! j < ([x] @ xs) ! ?k)"
    by (rule argmax_loop_inv) auto
  have k: "?k < length s" and ge: "\<forall>j<length s. s ! j \<le> s ! ?k" and lt: "\<forall>j<?k. s ! j < s ! ?k"
    using inv s by simp_all
  have "s ! ?k = Max (set s)"
  proof (rule antisym)
    from k have "s ! ?k \<in> set s" by (rule nth_mem)
    then show "s ! ?k \<le> Max (set s)" by (intro Max_ge) auto
    show "Max (set s) \<le> s ! ?k"
      using ge assms by (subst Max_le_iff) (auto simp: in_set_conv_nth)
  qed
  with k lt s show ?thesis by (simp add: np_argmax_def)
qed

lemma collect_top_filter:
  assumes "\<forall>i\<in>set idxs. i < length s \<and> i < length LABELS"
  shows "collect_top s t idxs acc =
     Inr (acc @ map (\<lambda>i. detection_dict i (LABELS ! i) (s ! i))
                  (filter (\<lambda>i. float_gt (s ! i) t) idxs))"
  using assms by (induction idxs arbitrary: acc) (simp_all add: getitem_def)

lemma argsort_ok_length: "argsort_ok idxs s \<Longrightarrow> length idxs = length s"
  unfolding argsort_ok_def using mset_eq_length by fastforce

lemma argsort_ok_set: "argsort_ok idxs s \<Longrightarrow> set idxs = {..<length s}"
  unfolding argsort_ok_def using mset_eq_setD by fastforce


lemma argsort_ok_sorted: "argsort_ok idxs s \<Longrightarrow> sorted (map (\<lambda>i. s ! i) idxs)"
  by (simp add: argsort_ok_def)

lemma argsort_stable_ok: "argsort_ok (argsort_stable s) s"
  by (simp add: argsort_ok_def argsort_stable_def)

lemma top_indices_subset: "set (top_indices_of idxs) \<subseteq> set idxs"
  by (auto simp: top_indices_of_def dest: in_set_dropD)




lemma top_indices_hd:
  "idxs \<noteq> [] \<Longrightarrow> top_indices_of idxs \<noteq> [] \<and> hd (top_indices_of idxs) = last idxs"
  by (cases idxs) (simp_all add: top_indices_of_def hd_rev)

lemma argsort_last_Max:
  assumes "argsort_ok idxs s" "s \<noteq> []"
  shows "idxs \<noteq> [] \<and> last idxs < length s \<and> s ! last idxs = Max (set s)"
proof -
  from assms have ne: "idxs \<noteq> []" using argsort_ok_length by fastforce
  then have mem: "last idxs \<in> set idxs" by simp
  then have lt: "last idxs < length s" using argsort_ok_set[OF assms(1)] by auto
  have split: "idxs = butlast idxs @ [last idxs]" using ne by simp
  have "sorted (map (\<lambda>i. s ! i) (butlast idxs @ [last idxs]))"
    using argsort_ok_sorted[OF assms(1)] split by simp
  then have below: "\<forall>j\<in>set (butlast idxs). s ! j \<le> s ! last idxs"
    by (simp add: sorted_append)
  have ge: "s ! i \<le> s ! last idxs" if "i < length s" for i
  proof -
    from that have "i \<in> set idxs" using argsort_ok_set[OF assms(1)] by auto
    then have "i \<in> set (butlast idxs @ [last idxs])" using split by simp
    then show ?thesis using below by auto
  qed
  have "s ! last idxs = Max (set s)"
  proof (rule antisym)
    from lt have "s ! last idxs \<in> set s" by (rule nth_mem)
    then show "s ! last idxs \<le> Max (set s)" by (intro Max_ge) auto
    show "Max (set s) \<le> s ! last idxs"
      using ge assms(2) by (subst Max_le_iff) (auto simp: in_set_conv_nth)
  qed
  with ne lt show ?thesis by simp
qed

section \<open>Comparisons and the order of numpy\<close>

lemma float_gt_Fin [simp]: "float_gt (Fin x) t = (t < x)"
  by (simp add: float_gt_def)

lemma float_gt_NaN [simp]: "float_gt NaN t = False"
  by (simp add: float_gt_def)

lemma Fin_le_iff [simp]: "(Fin x \<le> Fin y) = (x \<le> y)"
  by (simp add: less_eq_pyfloat_def)

lemma Fin_less_iff [simp]: "(Fin x < Fin y) = (x < y)"
  by (simp add: less_pyfloat_def)

lemma le_NaN [simp]: "a \<le> NaN"
  by (simp add: less_eq_pyfloat_def)

lemma NaN_le_iff [simp]: "(NaN \<le> a) = (a = NaN)"
  by (cases a) (simp_all add: less_eq_pyfloat_def)

lemma Fin_less_NaN [simp]: "Fin x < NaN"
  by (simp add: less_pyfloat_def)

lemma not_NaN_less [simp]: "\<not> NaN < a"
  by (simp add: less_pyfloat_def)

lemma float_gt_mono:
  assumes "float_gt a t" "a \<le> b" "b \<noteq> NaN"
  shows "float_gt b t"
  using assms by (cases a; cases b) auto

lemma Max_NaN:
  assumes "NaN \<in> set s"
  shows "Max (set s) = NaN"
proof -
  from assms have "NaN \<le> Max (set s)" by (intro Max_ge) auto
  then show ?thesis by simp
qed

lemma Max_not_NaN:
  assumes "NaN \<notin> set s" "s \<noteq> []"
  shows "Max (set s) \<noteq> NaN"
proof -
  from assms(2) have "Max (set s) \<in> set s" by (intro Max_in) auto
  with assms(1) show ?thesis by metis
qed

text \<open>
  A float32 element above the threshold as numpy takes it is above the threshold itself,
  when the conversion is monotone and leaves float32 values as they are.
\<close>

lemma float32_operand_above:
  assumes "mono operand" "operand x = x" "float_gt (Fin x) (operand t)"
  shows "float_gt (Fin x) t"
proof (rule ccontr)
  assume "\<not> float_gt (Fin x) t"
  then have "x \<le> t" by simp
  with assms(1) have "operand x \<le> operand t" by (rule monoD)
  with assms(2,3) show False by simp
qed

section \<open>Running \<^verbatim>\<open>detect_sign\<close>\<close>

lemmas py_defs = py_bind_def py_try_def py_pure_def py_total_def py_return_def

lemma run_inference_details:
  assumes "run_inference env self p w = (Inr r, w1)"
  shows "input_details self \<noteq> []"
proof
  assume "input_details self = []"
  then have "\<exists>e w'. run_inference env self p w = (Inl e, w')"
    by (simp add: run_inference_def py_defs getitem_def split: prod.splits sum.splits)
  with assms show False by auto
qed

lemma detect_sign_success:
  assumes run: "run_inference env self p w = (Inr (s # others, dt), w1)"
    and ne: "s \<noteq> []" and len: "length s \<le> 43"
    and ok: "argsort_ok (np_argsort env s) s"
    and k: "np_argmax s = Inr k"
  shows "detect_sign env self p w =
     (Inr (success_record env self p s dt (fst (datetime_now_isoformat env w1)) k),
      snd (datetime_now_isoformat env w1))"
proof -
  have din: "input_details self \<noteq> []" using run by (rule run_inference_details)
  from np_argmax_spec[OF ne] k have kl: "k < length s" by auto
  have range: "\<forall>i\<in>set (top_indices_of (np_argsort env s)). i < length s \<and> i < length LABELS"
    using top_indices_subset[of "np_argsort env s"] argsort_ok_set[OF ok] len
    by (auto simp: LABELS_length)
  have top: "collect_top s (float32_operand env (confidence_threshold self))
       (top_indices_of (np_argsort env s)) [] =
     Inr (map (\<lambda>i. detection_dict i (LABELS ! i) (s ! i))
            (filter (\<lambda>i. float_gt (s ! i) (float32_operand env (confidence_threshold self)))
               (top_indices_of (np_argsort env s))))"
    using collect_top_filter[OF range, of "float32_operand env (confidence_threshold self)" "[]"]
    by simp
  show ?thesis
    using din kl len
    by (simp add: detect_sign_def detect_sign_body_def py_defs run getitem_def np_max_Max[OF ne] k top
        success_record_def LABELS_length split: prod.splits)
qed

lemma detect_sign_top:
  assumes "run_inference env self p w = (Inr (s # others, dt), w1)"
    and "length s = 43"
    and "argsort_ok (np_argsort env s) s"
  shows "\<exists>r w2. detect_sign env self p w = (Inr r, w2) \<and>
      map_of r ''detected'' = Some (PBool (float_gt (Max (set s)) (confidence_threshold self))) \<and>
      map_of r ''top_predictions'' =
        Some (PList (map (\<lambda>i. detection_dict i (LABELS ! i) (s ! i))
          (filter (\<lambda>i. float_gt (s ! i) (float32_operand env (confidence_threshold self)))
             (top_indices_of (np_argsort env s)))))"
proof -
  from assms(2) have ne: "s \<noteq> []" by auto
  from np_argmax_spec[OF ne] obtain k where k: "np_argmax s = Inr k" by blast
  have "detect_sign env self p w =
     (Inr (success_record env self p s dt (fst (datetime_now_isoformat env w1)) k),
      snd (datetime_now_isoformat env w1))"
    using assms(1) ne _ assms(3) k by (rule detect_sign_success) (simp add: assms(2))
  then show ?thesis by (simp add: success_record_def)
qed

lemma above_threshold_Max:
  assumes "i < length s" "float_gt (s ! i) t" "NaN \<notin> set s"
  shows "float_gt (Max (set s)) t"
proof -
  from assms(1) have mem: "s ! i \<in> set s" by (rule nth_mem)
  then have le: "s ! i \<le> Max (set s)" by (intro Max_ge) auto
  from mem have "s \<noteq> []" by auto
  with assms(3) have "Max (set s) \<noteq> NaN" by (rule Max_not_NaN)
  with assms(2) le show ?thesis by (rule float_gt_mono)
qed

text \<open>
  Where the threshold passes unchanged into the comparison of line 138 (it is a float32
  value, or numpy compares in float64), a detection lists its maximum: the last index
  of \<^verbatim>\<open>argsort\<close> is the first candidate and passes the test that sets \<^verbatim>\<open>detected\<close>.
\<close>

lemma detected_lists_maximum:
  assumes "run_inference env self p w = (Inr (s # others, dt), w1)"
    and "length s = 43"
    and "argsort_ok (np_argsort env s) s"
    and "float32_operand env (confidence_threshold self) = confidence_threshold self"
  shows "\<exists>r w2 tp. detect_sign env self p w = (Inr r, w2) \<and>
      map_of r ''top_predictions'' = Some (PList tp) \<and>
      (map_of r ''detected'' = Some (PBool True) \<longrightarrow>
         tp \<noteq> [] \<and> hd tp = detection_dict (last (np_argsort env s))
           (LABELS ! last (np_argsort env s)) (Max (set s)))"
proof -
  let ?t = "confidence_threshold self"
  let ?idxs = "np_argsort env s"
  let ?js = "filter (\<lambda>i. float_gt (s ! i) (float32_operand env ?t)) (top_indices_of ?idxs)"
  let ?tp = "map (\<lambda>i. detection_dict i (LABELS ! i) (s ! i)) ?js"
  from detect_sign_top[OF assms(1-3)] obtain r w2 where
    r: "detect_sign env self p w = (Inr r, w2)"
      "map_of r ''detected'' = Some (PBool (float_gt (Max (set s)) ?t))"
      "map_of r ''top_predictions'' = Some (PList ?tp)"
    by blast
  from assms(2) have ne: "s \<noteq> []" by auto
  from argsort_last_Max[OF assms(3) ne] have
    l: "?idxs \<noteq> []" "s ! last ?idxs = Max (set s)" by auto
  from top_indices_hd[OF l(1)] obtain rest where
    top: "top_indices_of ?idxs = last ?idxs # rest"
    by (cases "top_indices_of ?idxs") auto
  have "?tp \<noteq> [] \<and> hd ?tp = detection_dict (last ?idxs) (LABELS ! last ?idxs) (Max (set s))"
    if "float_gt (Max (set s)) ?t"
    using that l(2) by (simp add: top assms(4))
  then have "map_of r ''detected'' = Some (PBool True) \<longrightarrow>
      ?tp \<noteq> [] \<and> hd ?tp = detection_dict (last ?idxs) (LABELS ! last ?idxs) (Max (set s))"
    using r(2) by simp
  with r(1,3) show ?thesis by blast
qed



lemma detect_sign_error:
  assumes "detect_sign_body env self p w = (Inl e, w1)"
  shows "detect_sign env self p w =
     (Inr [(''image_path'', PStr p),
           (''timestamp'', PStr (fst (datetime_now_isoformat env w1))),
           (''error'', PStr (message e)),
           (''detected'', PBool False)],
      snd (datetime_now_isoformat env w1))"
  using assms
  by (simp add: detect_sign_def error_record_def py_defs split: prod.splits)

lemma detect_sign_returns:
  assumes "detect_sign_body env self p w = (Inr r, w1)"
  shows "detect_sign env self p w = (Inr r, w1)"
  using assms by (simp add: detect_sign_def py_defs)

lemma detect_sign_total: "\<exists>r w'. detect_sign env self p w = (Inr r, w')"
proof (cases "detect_sign_body env self p w")
  case (Pair res w1)
  then show ?thesis
  proof (cases res)
    case (Inl e)
    with Pair have "detect_sign_body env self p w = (Inl e, w1)" by simp
    from detect_sign_error[OF this] show ?thesis by simp
  next
    case (Inr r)
    with Pair have "detect_sign_body env self p w = (Inr r, w1)" by simp
    from detect_sign_returns[OF this] show ?thesis by simp
  qed
qed

lemma preprocess_failure_run:
  assumes "preprocess_image env p (224, 224) w = (Inl e, w1)"
  shows "run_inference env self p w = (Inl e, w1)"
  using assms by (simp add: run_inference_def py_bind_def)

lemma run_failure_body:
  assumes "run_inference env self p w = (Inl e, w1)"
  shows "detect_sign_body env self p w = (Inl e, w1)"
  using assms by (simp add: detect_sign_body_def py_bind_def)

section \<open>Running \<^verbatim>\<open>detect_batch\<close> and the report\<close>

lemma detect_sign_body_image_path:
  assumes "detect_sign_body env self p w = (Inr r, w1)"
  shows "map_of r ''image_path'' = Some (PStr p)"
  using assms
  by (auto simp: detect_sign_body_def py_defs split: prod.splits sum.splits)

lemma detect_sign_image_path:
  assumes "detect_sign env self p w = (Inr r, w')"
  shows "map_of r ''image_path'' = Some (PStr p)"
proof (cases "detect_sign_body env self p w")
  case (Pair res w1)
  show ?thesis
  proof (cases res)
    case (Inl e)
    with Pair have "detect_sign_body env self p w = (Inl e, w1)" by simp
    from detect_sign_error[OF this] assms show ?thesis by auto
  next
    case (Inr r')
    with Pair have b: "detect_sign_body env self p w = (Inr r', w1)" by simp
    from detect_sign_returns[OF b] assms have "r' = r" by simp
    with detect_sign_body_image_path[OF b] show ?thesis by simp
  qed
qed

lemma world_after_Cons:
  "world_after env self (p # ps) w = world_after env self ps (snd (detect_sign env self p w))"
  by (simp add: world_after_def)

lemma detect_batch_loop_spec:
  "\<exists>rs. detect_batch_loop env self ps acc w = (Inr (acc @ rs), world_after env self ps w) \<and>
     length rs = length ps \<and>
     (\<forall>i<length ps.
        detect_sign env self (ps ! i) (world_after env self (take i ps) w) =
          (Inr (rs ! i), world_after env self (take (Suc i) ps) w))"
proof (induction ps arbitrary: acc w)
  case Nil
  then show ?case by (simp add: world_after_def)
next
  case (Cons p ps)
  from detect_sign_total[of env self p w]
  obtain r w1 where d: "detect_sign env self p w = (Inr r, w1)" by blast
  from Cons.IH[of "acc @ [r]" w1] obtain rs where
    rs: "detect_batch_loop env self ps (acc @ [r]) w1 = (Inr ((acc @ [r]) @ rs), world_after env self ps w1)"
      "length rs = length ps"
      "\<forall>i<length ps.
        detect_sign env self (ps ! i) (world_after env self (take i ps) w1) =
          (Inr (rs ! i), world_after env self (take (Suc i) ps) w1)"
    by blast
  have step: "detect_sign env self ((p # ps) ! i) (world_after env self (take i (p # ps)) w) =
          (Inr ((r # rs) ! i), world_after env self (take (Suc i) (p # ps)) w)"
    if "i < length (p # ps)" for i
  proof (cases i)
    case 0
    then show ?thesis using d by (simp add: world_after_def)
  next
    case (Suc j)
    with that have "j < length ps" by simp
    with rs(3) Suc d show ?thesis by (simp add: world_after_Cons)
  qed
  show ?case
    apply (rule exI[of _ "r # rs"])
    using d rs(1,2) step by (simp add: world_after_Cons)
qed

lemma result_record_detected:
  assumes "result_record r"
  shows "truthy (dict_get r ''detected'' (PBool False)) = (map_of r ''detected'' = Some (PBool True))"
  using assms
  by (auto simp: result_record_def dict_get_def split: option.splits pyval.splits)

lemma successful_count:
  assumes "\<forall>r\<in>set results. result_record r"
  shows "filter (\<lambda>r. truthy (dict_get r ''detected'' (PBool False))) results =
         filter (\<lambda>r. map_of r ''detected'' = Some (PBool True)) results"
  using assms by (intro filter_cong) (auto simp: result_record_detected)

lemma inference_times_timings:
  assumes "\<forall>r\<in>set results. result_record r"
  shows "map (\<lambda>r. dict_get r ''inference_time_ms'' (PInt 0))
           (filter (\<lambda>r. dict_has r ''inference_time_ms'') results) =
         map PFloat (timings results)"
  using assms
proof (induction results)
  case Nil
  then show ?case by (simp add: timings_def)
next
  case (Cons r rs)
  then have IH: "map (\<lambda>r. dict_get r ''inference_time_ms'' (PInt 0))
           (filter (\<lambda>r. dict_has r ''inference_time_ms'') rs) = map PFloat (timings rs)"
    by simp
  from Cons.prems have rr: "result_record r" by simp
  have t: "timings (r # rs) =
      (case map_of r ''inference_time_ms'' of Some (PFloat x) \<Rightarrow> [x] | _ \<Rightarrow> []) @ timings rs"
    by (simp add: timings_def)
  show ?case
  proof (cases "map_of r ''inference_time_ms''")
    case None
    then show ?thesis using IH by (simp add: t dict_has_def)
  next
    case (Some v)
    with rr obtain x where "v = PFloat x"
      by (auto simp: result_record_def split: pyval.splits)
    with Some show ?thesis using IH by (simp add: t dict_has_def dict_get_def)
  qed
qed

lemma numbers_of_floats: "numbers_of (map PFloat xs) = Inr xs"
  by (induction xs) simp_all

lemma build_output_data_summary:
  assumes "\<forall>r\<in>set results. result_record r"
  shows "build_output_data env results w =
     (Inr (PDict
        [(''detection_summary'', PDict
            [(''total_images'', PInt (int (length results))),
             (''successful_detections'',
                PInt (int (length (filter (\<lambda>r. map_of r ''detected'' = Some (PBool True)) results)))),
             (''failed_detections'',
                PInt (int (length results) -
                  int (length (filter (\<lambda>r. map_of r ''detected'' = Some (PBool True)) results)))),
             (''success_rate'',
                if 0 < length results
                then PFloat (float_round2 env (float_mul env
                       (int_truediv env
                          (int (length (filter (\<lambda>r. map_of r ''detected'' = Some (PBool True)) results)))
                          (int (length results)))
                       (Fin 100)))
                else PInt 0),
             (''average_inference_time_ms'',
                if timings results \<noteq> []
                then PFloat (np_float64_round2 env (np_mean env (timings results)))
                else PInt 0),
             (''detection_timestamp'', PStr (fst (datetime_now_isoformat env w)))]),
         (''detections'', PList (map PDict results))]),
      snd (datetime_now_isoformat env w))"
  unfolding build_output_data_def Let_def successful_count[OF assms] inference_times_timings[OF assms]
  by (simp add: py_defs numbers_of_floats split: prod.splits)

lemma detect_sign_body_result_record:
  assumes "detect_sign_body env self p w = (Inr r, w1)"
  shows "result_record r"
  using assms
  by (auto simp: detect_sign_body_def py_defs result_record_def split: prod.splits sum.splits)

lemma detect_sign_result_record:
  assumes "detect_sign env self p w = (Inr r, w')"
  shows "result_record r"
proof (cases "detect_sign_body env self p w")
  case (Pair res w1)
  show ?thesis
  proof (cases res)
    case (Inl e)
    with Pair have "detect_sign_body env self p w = (Inl e, w1)" by simp
    from detect_sign_error[OF this] assms show ?thesis by (auto simp: result_record_def)
  next
    case (Inr r')
    with Pair have b: "detect_sign_body env self p w = (Inr r', w1)" by simp
    from detect_sign_returns[OF b] assms have "r' = r" by simp
    with detect_sign_body_result_record[OF b] show ?thesis by simp
  qed
qed

lemma load_model_success:
  assumes "tflite_Interpreter env path w = (Inr h, w1)"
    and "allocate_tensors env h w1 = (Inr u, w2)"
    and "get_input_details env h \<noteq> []"
    and "get_output_details env h \<noteq> []"
  shows "load_model env path t w =
     (Inr \<lparr> model_path = path, confidence_threshold = t, interpreter = h,
            input_details = get_input_details env h,
            output_details = get_output_details env h \<rparr>, w2)"
  using assms by (simp add: load_model_def py_defs getitem_def)

lemma load_model_failure:
  assumes "load_model env path t w = (Inl e, w')"
  shows "tflite_Interpreter env path w = (Inl e, w') \<or>
     (\<exists>h w1. tflite_Interpreter env path w = (Inr h, w1) \<and>
        (allocate_tensors env h w1 = (Inl e, w') \<or>
         get_input_details env h = [] \<or> get_output_details env h = []))"
  using assms
  by (auto simp: load_model_def py_defs getitem_def split: prod.splits sum.splits if_splits)

lemma byte_ratio_range:
  "0 \<le> (of_nat (unat (b :: 8 word)) :: rat) / 255 \<and> (of_nat (unat b) :: rat) / 255 \<le> 1"
proof -
  have "unat b < 2 ^ LENGTH(8)" by (rule unsigned_less)
  then have "unat b \<le> 255" by simp
  then have "(of_nat (unat b) :: rat) \<le> of_nat 255" by (simp only: of_nat_le_iff)
  then have le: "(of_nat (unat b) :: rat) \<le> 255" by simp
  have ge: "0 \<le> (of_nat (unat b) :: rat)" by (rule of_nat_0_le_iff)
  from le ge show ?thesis by (simp only: divide_le_eq_1_pos zero_le_divide_iff) simp
qed

lemma np_array_float32_length:
  "length (nd_data (np_array_float32 img)) = 3 * length (im_pixels img)"
  by (induction "im_pixels img" arbitrary: img)
     (auto simp: np_array_float32_def length_concat comp_def split_beta sum_list_triv)

lemma np_array_float32_range:
  "\<forall>x\<in>set (nd_data (np_array_float32 img)). 0 \<le> x / 255 \<and> x / 255 \<le> 1"
proof
  fix x assume "x \<in> set (nd_data (np_array_float32 img))"
  then obtain b :: "8 word" where "x = of_nat (unat b)"
    by (auto simp: np_array_float32_def)
  then show "0 \<le> x / 255 \<and> x / 255 \<le> 1" using byte_ratio_range[of b] by simp
qed

lemma preprocess_image_result:
  assumes "Image_open_convert_RGB env p w = (Inr img, w1)"
  shows "preprocess_image env p sz w =
     (Inr \<lparr> nd_dtype = Float32,
            nd_shape = [1, snd (im_size (Image_resize env img sz)),
                        fst (im_size (Image_resize env img sz)), 3],
            nd_data = map (\<lambda>x. x / 255) (nd_data (np_array_float32 (Image_resize env img sz))) \<rparr>,
      w1)"
  using assms
  by (simp add: preprocess_image_def py_defs Let_def np_divide_def np_expand_dims0_def
      np_array_float32_def)

section \<open>The small world\<close>

lemma double_values: "double 1 = 1" "double 1000 = 1000"
  by code_simp+

lemma float32_three_tenths: "float32 (3 / 10) = 5033165 / 16777216"
  by code_simp

lemma demo_selectors:
  "np_argsort (gtsrb_env s) = argsort_stable"
  "float32_operand (gtsrb_env s) = (\<lambda>t. t)"
  "float_sub (gtsrb_env s) = double_op (-)"
  "float_mul (gtsrb_env s) = double_op (*)"
  "int_truediv (gtsrb_env s) = (\<lambda>a b. Fin (double (of_int a / of_int b)))"
  "float_round2 (gtsrb_env s) = python_round2"
  "np_mean (gtsrb_env s) = numpy_mean"
  "np_float64_round2 (gtsrb_env s) = numpy_round2"
  "datetime_now_isoformat (gtsrb_env s) = (\<lambda>w. (''2024-01-01T00:00:00'', Suc w))"
  by (simp_all add: gtsrb_env_def demo_env_def)

lemma demo_float32_selectors:
  "np_argsort (gtsrb_env_float32 s) = argsort_stable"
  "float32_operand (gtsrb_env_float32 s) = float32"
  "datetime_now_isoformat (gtsrb_env_float32 s) = (\<lambda>w. (''2024-01-01T00:00:00'', Suc w))"
  by (simp_all add: gtsrb_env_float32_def gtsrb_env_def demo_env_def)

lemma demo_run:
  "p \<noteq> ''missing.png'' \<Longrightarrow>
   run_inference (gtsrb_env s) (gtsrb_detector t) p w = (Inr ([s], Fin 1), Suc (Suc w))"
  by (simp add: run_inference_def preprocess_image_def py_defs gtsrb_env_def gtsrb_detector_def
      demo_env_def demo_detector_def getitem_def Let_def double_op_def double_values)

lemma demo_float32_run:
  "p \<noteq> ''missing.png'' \<Longrightarrow>
   run_inference (gtsrb_env_float32 s) (gtsrb_detector t) p w = (Inr ([s], Fin 1), Suc (Suc w))"
  by (simp add: run_inference_def preprocess_image_def py_defs gtsrb_env_float32_def gtsrb_env_def
      gtsrb_detector_def demo_env_def demo_detector_def getitem_def Let_def double_op_def
      double_values)

lemma demo_run_missing:
  "run_inference (gtsrb_env s) (gtsrb_detector t) ''missing.png'' w =
     (Inl (Exn ''No such file or directory''), w)"
  by (simp add: run_inference_def preprocess_image_def py_defs gtsrb_env_def gtsrb_detector_def
      demo_env_def demo_detector_def getitem_def Let_def)

lemma demo_argsort: "argsort_ok (np_argsort (gtsrb_env s') s) s"
  by (simp add: demo_selectors argsort_stable_ok)

lemma demo_float32_argsort: "argsort_ok (np_argsort (gtsrb_env_float32 s') s) s"
  by (simp add: demo_float32_selectors argsort_stable_ok)

lemma demo_threshold: "confidence_threshold (gtsrb_detector t) = t"
  by (simp add: gtsrb_detector_def demo_detector_def)

lemma demo_now: "datetime_now_isoformat (gtsrb_env s) w = (''2024-01-01T00:00:00'', Suc w)"
  by (simp add: demo_selectors)

lemma demo_milliseconds:
  "float_round2 (gtsrb_env s) (float_mul (gtsrb_env s) (Fin 1) (Fin 1000)) = Fin 1000"
  unfolding demo_selectors by code_simp

lemma LABELS_nth:
  "LABELS ! 0 = ''Speed limit (20km/h)''" "LABELS ! 1 = ''Speed limit (30km/h)''"
  "LABELS ! Suc 0 = ''Speed limit (30km/h)''" "LABELS ! 2 = ''Speed limit (50km/h)''"
  "LABELS ! 14 = ''Stop''"
  by (simp_all add: LABELS_def)

subsection \<open>A stop sign\<close>

lemma stop_scores_length: "length stop_scores = 43"
  by (simp add: stop_scores_def)

lemma stop_scores_max: "Max (set stop_scores) = Fin (49 / 50)"
  by (simp add: stop_scores_def)

lemma stop_scores_argmax: "np_argmax stop_scores = Inr 14"
  by (simp add: stop_scores_def np_argmax_def numeral_eq_Suc)

lemma stop_scores_nth:
  "stop_scores ! 14 = Fin (49 / 50)" "stop_scores ! 41 = Fin 0" "stop_scores ! 42 = Fin 0"
  by (simp_all add: stop_scores_def nth_append)

lemma stop_top_indices: "top_indices_of (argsort_stable stop_scores) = [14, 42, 41]"
  by (simp add: argsort_stable_def stop_scores_def top_indices_of_def numeral_eq_Suc upt_rec)

lemma stop_detect_any:
  assumes "p \<noteq> ''missing.png''"
  shows "detect_sign (gtsrb_env stop_scores) (gtsrb_detector (3 / 10)) p w =
     (Inr (success_record (gtsrb_env stop_scores) (gtsrb_detector (3 / 10)) p stop_scores
        (Fin 1) ''2024-01-01T00:00:00'' 14), Suc (Suc (Suc w)))"
proof -
  have run: "run_inference (gtsrb_env stop_scores) (gtsrb_detector (3 / 10)) p w =
      (Inr (stop_scores # [], Fin 1), Suc (Suc w))"
    using assms by (simp add: demo_run)
  have "detect_sign (gtsrb_env stop_scores) (gtsrb_detector (3 / 10)) p w =
     (Inr (success_record (gtsrb_env stop_scores) (gtsrb_detector (3 / 10)) p stop_scores
        (Fin 1) (fst (datetime_now_isoformat (gtsrb_env stop_scores) (Suc (Suc w)))) 14),
      snd (datetime_now_isoformat (gtsrb_env stop_scores) (Suc (Suc w))))"
    using run _ _ demo_argsort stop_scores_argmax
    by (rule detect_sign_success) (simp_all add: stop_scores_def)
  then show ?thesis by (simp add: demo_now)
qed

lemma stop_detect:
  "detect_sign (gtsrb_env stop_scores) (gtsrb_detector (3 / 10)) ''stop.png'' 0 =
     (Inr (success_record (gtsrb_env stop_scores) (gtsrb_detector (3 / 10)) ''stop.png'' stop_scores
        (Fin 1) ''2024-01-01T00:00:00'' 14), 3)"
  using stop_detect_any[of "''stop.png''" 0] by (simp add: numeral_3_eq_3)

lemma stop_record_top:
  "map_of (success_record (gtsrb_env stop_scores) (gtsrb_detector (3 / 10)) p stop_scores dt ts k)
     ''top_predictions'' = Some (PList [detection_dict 14 ''Stop'' (Fin (49 / 50))])"
  by (simp add: success_record_def stop_top_indices demo_selectors demo_threshold LABELS_nth
      stop_scores_nth)

lemma stop_record_detected:
  "map_of (success_record (gtsrb_env stop_scores) (gtsrb_detector (3 / 10)) p stop_scores dt ts k)
     ''detected'' = Some (PBool True)"
  by (simp add: success_record_def demo_threshold stop_scores_max)

lemma stop_record_time:
  "map_of (success_record (gtsrb_env stop_scores) (gtsrb_detector (3 / 10)) p stop_scores (Fin 1) ts k)
     ''inference_time_ms'' = Some (PFloat (Fin 1000))"
  by (simp add: success_record_def demo_milliseconds)

lemma missing_body:
  "detect_sign_body (gtsrb_env s) (gtsrb_detector t) ''missing.png'' w =
     (Inl (Exn ''No such file or directory''), w)"
  by (rule run_failure_body) (rule demo_run_missing)

lemma missing_detect:
  "detect_sign (gtsrb_env s) (gtsrb_detector t) ''missing.png'' w =
     (Inr [(''image_path'', PStr ''missing.png''),
           (''timestamp'', PStr ''2024-01-01T00:00:00''),
           (''error'', PStr ''No such file or directory''),
           (''detected'', PBool False)], Suc w)"
  by (simp add: detect_sign_error[OF missing_body] demo_now)

lemma demo_batch:
  "detect_batch (gtsrb_env stop_scores) (gtsrb_detector (3 / 10))
     [''a.png'', ''missing.png'', ''c.png''] 0 =
   (Inr [success_record (gtsrb_env stop_scores) (gtsrb_detector (3 / 10)) ''a.png'' stop_scores
           (Fin 1) ''2024-01-01T00:00:00'' 14,
         [(''image_path'', PStr ''missing.png''),
          (''timestamp'', PStr ''2024-01-01T00:00:00''),
          (''error'', PStr ''No such file or directory''),
          (''detected'', PBool False)],
         success_record (gtsrb_env stop_scores) (gtsrb_detector (3 / 10)) ''c.png'' stop_scores
           (Fin 1) ''2024-01-01T00:00:00'' 14], 7)"
  by (simp add: detect_batch_def stop_detect_any missing_detect)

lemma demo_batch_records:
  "\<forall>r\<in>set [success_record (gtsrb_env stop_scores) (gtsrb_detector (3 / 10)) ''a.png'' stop_scores
                (Fin 1) ''2024-01-01T00:00:00'' 14,
              [(''image_path'', PStr ''missing.png''),
               (''timestamp'', PStr ''2024-01-01T00:00:00''),
               (''error'', PStr ''No such file or directory''),
               (''detected'', PBool False)],
              success_record (gtsrb_env stop_scores) (gtsrb_detector (3 / 10)) ''c.png'' stop_scores
                (Fin 1) ''2024-01-01T00:00:00'' 14].
     result_record r"
  by (simp add: result_record_def success_record_def)

subsection \<open>Two equal scores\<close>

lemma tie_scores_length: "length tie_scores = 43"
  by (simp add: tie_scores_def)




lemma tie_run:
  "run_inference (gtsrb_env tie_scores) (gtsrb_detector (3 / 10)) ''tie.png'' 0 =
      (Inr (tie_scores # [], Fin 1), Suc (Suc 0))"
  by (simp add: demo_run)

lemma tie_top_indices: "top_indices_of (argsort_stable tie_scores) = [1, 0, 42]"
  by (simp add: argsort_stable_def tie_scores_def top_indices_of_def numeral_eq_Suc upt_rec)

lemma tie_scores_nth:
  "tie_scores ! 0 = Fin (2 / 5)" "tie_scores ! 1 = Fin (2 / 5)" "tie_scores ! Suc 0 = Fin (2 / 5)"
  "tie_scores ! 42 = Fin 0"
  by (simp_all add: tie_scores_def nth_append)

lemma tie_detect_top:
  "map_of (projr (fst (detect_sign (gtsrb_env tie_scores) (gtsrb_detector (3 / 10)) ''tie.png'' 0)))
      ''top_predictions'' =
    Some (PList [detection_dict 1 ''Speed limit (30km/h)'' (Fin (2 / 5)),
                 detection_dict 0 ''Speed limit (20km/h)'' (Fin (2 / 5))])"
  using detect_sign_top[OF tie_run tie_scores_length demo_argsort]
  by (auto simp: tie_top_indices demo_selectors demo_threshold tie_scores_nth LABELS_nth)



lemma tie_finite: "NaN \<notin> set tie_scores"
  by (simp add: tie_scores_def)

subsection \<open>A NaN\<close>

lemma nan_scores_length: "length nan_scores = 43"
  by (simp add: nan_scores_def)

lemma nan_scores_max: "Max (set nan_scores) = NaN"
  by (rule Max_NaN) (simp add: nan_scores_def)

lemma nan_run:
  "run_inference (gtsrb_env nan_scores) (gtsrb_detector (1 / 4)) ''nan.png'' 0 =
      (Inr (nan_scores # [], Fin 1), Suc (Suc 0))"
  by (simp add: demo_run)

lemma nan_top_indices: "top_indices_of (argsort_stable nan_scores) = [0, 1, 42]"
  by (simp add: argsort_stable_def nan_scores_def top_indices_of_def numeral_eq_Suc upt_rec)

lemma nan_scores_nth:
  "nan_scores ! 0 = NaN" "nan_scores ! 1 = Fin (3 / 4)" "nan_scores ! Suc 0 = Fin (3 / 4)"
  "nan_scores ! 42 = Fin 0"
  by (simp_all add: nan_scores_def nth_append)

lemma nan_detect:
  "map_of (projr (fst (detect_sign (gtsrb_env nan_scores) (gtsrb_detector (1 / 4)) ''nan.png'' 0)))
      ''detected'' = Some (PBool False) \<and>
   map_of (projr (fst (detect_sign (gtsrb_env nan_scores) (gtsrb_detector (1 / 4)) ''nan.png'' 0)))
      ''top_predictions'' = Some (PList [detection_dict 1 ''Speed limit (30km/h)'' (Fin (3 / 4))])"
  using detect_sign_top[OF nan_run nan_scores_length demo_argsort]
  by (auto simp: nan_top_indices demo_selectors demo_threshold nan_scores_nth nan_scores_max
      LABELS_nth)

subsection \<open>A score on the float32 neighbour of the threshold\<close>

lemma edge_scores_length: "length edge_scores = 43"
  by (simp add: edge_scores_def)

lemma edge_scores_max: "Max (set edge_scores) = Fin (5033165 / 16777216)"
  by (simp add: edge_scores_def float32_three_tenths)

lemma edge_run:
  "run_inference (gtsrb_env_float32 edge_scores) (gtsrb_detector (3 / 10)) ''edge.png'' 0 =
      (Inr (edge_scores # [], Fin 1), Suc (Suc 0))"
  by (simp add: demo_float32_run)

lemma edge_top_indices: "top_indices_of (argsort_stable edge_scores) = [0, 42, 41]"
  by (simp add: argsort_stable_def edge_scores_def float32_three_tenths top_indices_of_def
      numeral_eq_Suc upt_rec)

lemma edge_scores_nth:
  "edge_scores ! 0 = Fin (5033165 / 16777216)" "edge_scores ! 41 = Fin 0" "edge_scores ! 42 = Fin 0"
  by (simp_all add: edge_scores_def nth_append float32_three_tenths)

lemma edge_detect:
  "map_of (projr (fst (detect_sign (gtsrb_env_float32 edge_scores) (gtsrb_detector (3 / 10)) ''edge.png'' 0)))
      ''detected'' = Some (PBool True) \<and>
   map_of (projr (fst (detect_sign (gtsrb_env_float32 edge_scores) (gtsrb_detector (3 / 10)) ''edge.png'' 0)))
      ''top_predictions'' = Some (PList [])"
  using detect_sign_top[OF edge_run edge_scores_length demo_float32_argsort]
  by (auto simp: edge_top_indices demo_float32_selectors demo_threshold edge_scores_nth
      edge_scores_max float32_three_tenths)

subsection \<open>Three scores above the threshold\<close>

lemma three_scores_length: "length three_scores = 43"
  by (simp add: three_scores_def)

lemma three_run:
  "run_inference (gtsrb_env three_scores) (gtsrb_detector (1 / 4)) ''three.png'' 0 =
      (Inr (three_scores # [], Fin 1), Suc (Suc 0))"
  by (simp add: demo_run)

lemma three_top_indices: "top_indices_of (argsort_stable three_scores) = [0, 1, 2]"
  by (simp add: argsort_stable_def three_scores_def top_indices_of_def numeral_eq_Suc upt_rec)

lemma three_scores_nth:
  "three_scores ! 0 = Fin (3 / 4)" "three_scores ! 1 = Fin (1 / 2)" "three_scores ! Suc 0 = Fin (1 / 2)"
  "three_scores ! 2 = Fin (3 / 8)"
  by (simp_all add: three_scores_def nth_append)

lemma three_detect:
  "map_of (projr (fst (detect_sign (gtsrb_env three_scores) (gtsrb_detector (1 / 4)) ''three.png'' 0)))
      ''top_predictions'' =
     Some (PList [detection_dict 0 ''Speed limit (20km/h)'' (Fin (3 / 4)),
                  detection_dict 1 ''Speed limit (30km/h)'' (Fin (1 / 2)),
                  detection_dict 2 ''Speed limit (50km/h)'' (Fin (3 / 8))])"
  using detect_sign_top[OF three_run three_scores_length demo_argsort]
  by (auto simp: three_top_indices demo_selectors demo_threshold three_scores_nth LABELS_nth)

subsection \<open>Images\<close>

lemma demo_open:
  "Image_open_convert_RGB (gtsrb_env s) ''stop.png'' w =
     (Inr \<lparr> im_size = (1, 1), im_pixels = [(255, 0, 0)] \<rparr>, w)"
  by (simp add: gtsrb_env_def demo_env_def)

lemma demo_resize:
  "im_size (Image_resize (gtsrb_env s) img (224, 224)) = (224, 224)"
  "length (im_pixels (Image_resize (gtsrb_env s) img (224, 224))) = 224 * 224"
  by (simp_all add: gtsrb_env_def demo_env_def)

subsection \<open>Binary64 in the report\<close>

text \<open>
  Two of three: 66.67. Twenty-three of 160: the quotient times 100 is the double below
  14.375, so 14.37, where the exact value 14.375 would round to 14.38. The mean of 0.5
  and 0.65 is the double below 0.575, so 0.57.
\<close>

lemma demo_rate_2_of_3:
  "float_round2 (gtsrb_env s) (float_mul (gtsrb_env s) (int_truediv (gtsrb_env s) 2 3) (Fin 100))
     = Fin (double (6667 / 100))"
  unfolding demo_selectors by code_simp

lemma demo_rate_23_of_160:
  "float_round2 (gtsrb_env s) (float_mul (gtsrb_env s) (int_truediv (gtsrb_env s) 23 160) (Fin 100))
     = Fin (double (1437 / 100))"
  unfolding demo_selectors by code_simp

lemma demo_mean_1000:
  "np_float64_round2 (gtsrb_env s) (np_mean (gtsrb_env s) [Fin 1000, Fin 1000]) = Fin 1000"
  unfolding demo_selectors by code_simp

lemma demo_mean_half_and_065:
  "np_float64_round2 (gtsrb_env s)
     (np_mean (gtsrb_env s) [Fin (double (1 / 2)), Fin (double (13 / 20))])
     = Fin (double (57 / 100))"
  unfolding demo_selectors by code_simp


section \<open>The decision\<close>



text \<open>
  C7. The claim fails at a score vector with a NaN. With class 0 at NaN, class 1 at
  0.75, every other class at 0 and the threshold 0.25, \<^verbatim>\<open>np.max\<close> is NaN, so \<^verbatim>\<open>detected\<close>
  is false, while class 1 passes the test of the loop and is listed.
\<close>

theorem nan_top_predictions_counterexample:
  "map_of (projr (fst (detect_sign (gtsrb_env nan_scores) (gtsrb_detector (1 / 4)) ''nan.png'' 0)))
      ''detected'' = Some (PBool False) \<and>
   map_of (projr (fst (detect_sign (gtsrb_env nan_scores) (gtsrb_detector (1 / 4)) ''nan.png'' 0)))
      ''top_predictions'' = Some (PList [detection_dict 1 ''Speed limit (30km/h)'' (Fin (3 / 4))])"
  by (rule nan_detect)

text \<open>
  C7, amended. When inference returns a score vector of length 43 without NaN, a
  non-empty \<^verbatim>\<open>top_predictions\<close> comes with \<^verbatim>\<open>detected\<close> true: a listed float32 score
  exceeds the threshold as numpy takes it into the comparison, so it exceeds the
  threshold, and the maximum is at least that score. The conversion of the threshold
  is monotone and leaves float32 values as they are.
\<close>

theorem top_predictions_nonempty_detected:
  assumes "run_inference env self p w = (Inr (s # others, dt), w1)"
    and "length s = 43"
    and "argsort_ok (np_argsort env s) s"
    and "NaN \<notin> set s"
    and "mono (float32_operand env)"
    and "\<forall>x. Fin x \<in> set s \<longrightarrow> float32_operand env x = x"
  shows "\<exists>r w2 tp. detect_sign env self p w = (Inr r, w2) \<and>
      map_of r ''top_predictions'' = Some (PList tp) \<and>
      (tp \<noteq> [] \<longrightarrow> map_of r ''detected'' = Some (PBool True))"
proof -
  let ?t = "confidence_threshold self"
  let ?js = "filter (\<lambda>i. float_gt (s ! i) (float32_operand env ?t)) (top_indices_of (np_argsort env s))"
  from detect_sign_top[OF assms(1-3)] obtain r w2 where
    r: "detect_sign env self p w = (Inr r, w2)"
      "map_of r ''detected'' = Some (PBool (float_gt (Max (set s)) ?t))"
      "map_of r ''top_predictions'' =
        Some (PList (map (\<lambda>i. detection_dict i (LABELS ! i) (s ! i)) ?js))"
    by blast
  have "float_gt (Max (set s)) ?t" if "?js \<noteq> []"
  proof -
    from that obtain i where i: "i \<in> set (top_indices_of (np_argsort env s))"
      "float_gt (s ! i) (float32_operand env ?t)"
      by (auto simp: filter_empty_conv)
    then have il: "i < length s"
      using top_indices_subset[of "np_argsort env s"] argsort_ok_set[OF assms(3)] by auto
    then have mem: "s ! i \<in> set s" by (rule nth_mem)
    from i(2) obtain x where x: "s ! i = Fin x" by (cases "s ! i") auto
    with mem assms(6) have "float32_operand env x = x" by auto
    moreover from i(2) x have "float_gt (Fin x) (float32_operand env ?t)" by simp
    ultimately have "float_gt (Fin x) ?t"
      using assms(5) by (intro float32_operand_above[of "float32_operand env" x ?t])
    with x have "float_gt (s ! i) ?t" by simp
    with il show ?thesis using assms(4) by (rule above_threshold_Max)
  qed
  then have "?js \<noteq> [] \<longrightarrow> map_of r ''detected'' = Some (PBool True)"
    using r(2) by simp
  then have "map (\<lambda>i. detection_dict i (LABELS ! i) (s ! i)) ?js \<noteq> [] \<longrightarrow>
      map_of r ''detected'' = Some (PBool True)"
    by simp
  with r(1,3) show ?thesis by blast
qed

theorem top_predictions_nonempty_detected_witness:
  "map_of (projr (fst (detect_sign (gtsrb_env stop_scores) (gtsrb_detector (3 / 10)) ''stop.png'' 0)))
      ''top_predictions'' = Some (PList [detection_dict 14 ''Stop'' (Fin (49 / 50))]) \<and>
   map_of (projr (fst (detect_sign (gtsrb_env stop_scores) (gtsrb_detector (3 / 10)) ''stop.png'' 0)))
      ''detected'' = Some (PBool True)"
proof -
  have run: "run_inference (gtsrb_env stop_scores) (gtsrb_detector (3 / 10)) ''stop.png'' 0 =
      (Inr (stop_scores # [], Fin 1), Suc (Suc 0))"
    by (simp add: demo_run)
  have finite: "NaN \<notin> set stop_scores" by (simp add: stop_scores_def)
  have mono: "mono (float32_operand (gtsrb_env stop_scores))"
    by (simp add: demo_selectors monoI)
  have fixed: "\<forall>x. Fin x \<in> set stop_scores \<longrightarrow> float32_operand (gtsrb_env stop_scores) x = x"
    by (simp add: demo_selectors)
  from top_predictions_nonempty_detected[OF run stop_scores_length demo_argsort finite mono fixed]
  obtain r w2 tp where
    r: "detect_sign (gtsrb_env stop_scores) (gtsrb_detector (3 / 10)) ''stop.png'' 0 = (Inr r, w2)"
      "map_of r ''top_predictions'' = Some (PList tp)"
      "tp \<noteq> [] \<longrightarrow> map_of r ''detected'' = Some (PBool True)"
    by blast
  from r(1) have eq: "projr (fst (detect_sign (gtsrb_env stop_scores) (gtsrb_detector (3 / 10))
      ''stop.png'' 0)) = r"
    by simp
  from r(1) have "r = success_record (gtsrb_env stop_scores) (gtsrb_detector (3 / 10)) ''stop.png''
      stop_scores (Fin 1) ''2024-01-01T00:00:00'' 14"
    by (simp add: stop_detect)
  then have top: "map_of r ''top_predictions'' = Some (PList [detection_dict 14 ''Stop'' (Fin (49 / 50))])"
    by (simp only: stop_record_top)
  with r(2) have "tp \<noteq> []" by auto
  with r(3) have "map_of r ''detected'' = Some (PBool True)" by simp
  with top show ?thesis by (simp only: eq simp_thms)
qed




text \<open>
  C6. A detection with an empty \<^verbatim>\<open>top_predictions\<close> exists. From NumPy 2 on, line 138
  compares the float32 score with the threshold rounded to float32, while line 150
  compares the score, as a Python float, with the threshold itself. With class 0 at the
  float32 nearest to 0.3, every other class at 0 and the threshold 0.3, the score
  exceeds 0.3 and does not exceed the float32 nearest to 0.3: \<^verbatim>\<open>detected\<close> is true and
  nothing is listed. Lists of one, two and three entries exist as well.
\<close>

theorem detected_with_empty_top_predictions:
  "map_of (projr (fst (detect_sign (gtsrb_env_float32 edge_scores) (gtsrb_detector (3 / 10))
      ''edge.png'' 0))) ''detected'' = Some (PBool True) \<and>
   map_of (projr (fst (detect_sign (gtsrb_env_float32 edge_scores) (gtsrb_detector (3 / 10))
      ''edge.png'' 0))) ''top_predictions'' = Some (PList []) \<and>
   map_of (projr (fst (detect_sign (gtsrb_env stop_scores) (gtsrb_detector (3 / 10))
      ''stop.png'' 0))) ''top_predictions'' =
     Some (PList [detection_dict 14 ''Stop'' (Fin (49 / 50))]) \<and>
   map_of (projr (fst (detect_sign (gtsrb_env tie_scores) (gtsrb_detector (3 / 10))
      ''tie.png'' 0))) ''top_predictions'' =
     Some (PList [detection_dict 1 ''Speed limit (30km/h)'' (Fin (2 / 5)),
                  detection_dict 0 ''Speed limit (20km/h)'' (Fin (2 / 5))]) \<and>
   map_of (projr (fst (detect_sign (gtsrb_env three_scores) (gtsrb_detector (1 / 4))
      ''three.png'' 0))) ''top_predictions'' =
     Some (PList [detection_dict 0 ''Speed limit (20km/h)'' (Fin (3 / 4)),
                  detection_dict 1 ''Speed limit (30km/h)'' (Fin (1 / 2)),
                  detection_dict 2 ''Speed limit (50km/h)'' (Fin (3 / 8))])"
proof -
  have stop: "map_of (projr (fst (detect_sign (gtsrb_env stop_scores) (gtsrb_detector (3 / 10))
      ''stop.png'' 0))) ''top_predictions'' =
     Some (PList [detection_dict 14 ''Stop'' (Fin (49 / 50))])"
    by (simp only: stop_detect fst_conv sum.sel stop_record_top)
  from edge_detect stop tie_detect_top three_detect show ?thesis
    by (intro conjI) (erule conjunct1, erule conjunct2, assumption+)
qed

section \<open>Failures\<close>

text \<open>
  C3. \<^verbatim>\<open>detect_sign\<close> returns a record for every path, in every world and for every
  detector: it never raises. Whenever the \<^verbatim>\<open>try\<close> block raises, the record has
  \<^verbatim>\<open>detected\<close> false, the text of the exception under \<^verbatim>\<open>error\<close>, and neither
  \<^verbatim>\<open>primary_detection\<close> nor \<^verbatim>\<open>top_predictions\<close>. A failure of preprocessing is a failure
  of inference as a whole, and a failure of inference is a failure of the block.
\<close>

theorem detect_sign_never_raises:
  "(\<exists>r w'. detect_sign env self p w = (Inr r, w')) \<and>
   (\<forall>e w1. detect_sign_body env self p w = (Inl e, w1) \<longrightarrow>
      (\<exists>r w'. detect_sign env self p w = (Inr r, w') \<and>
         map_of r ''image_path'' = Some (PStr p) \<and>
         map_of r ''detected'' = Some (PBool False) \<and>
         map_of r ''error'' = Some (PStr (message e)) \<and>
         map_of r ''primary_detection'' = None \<and>
         map_of r ''top_predictions'' = None)) \<and>
   (\<forall>e w1. run_inference env self p w = (Inl e, w1) \<longrightarrow>
      detect_sign_body env self p w = (Inl e, w1)) \<and>
   (\<forall>e w1. preprocess_image env p (224, 224) w = (Inl e, w1) \<longrightarrow>
      run_inference env self p w = (Inl e, w1))"
proof (intro conjI allI impI)
  show "\<exists>r w'. detect_sign env self p w = (Inr r, w')" by (rule detect_sign_total)
next
  fix e w1 assume "detect_sign_body env self p w = (Inl e, w1)"
  from detect_sign_error[OF this]
  show "\<exists>r w'. detect_sign env self p w = (Inr r, w') \<and>
         map_of r ''image_path'' = Some (PStr p) \<and>
         map_of r ''detected'' = Some (PBool False) \<and>
         map_of r ''error'' = Some (PStr (message e)) \<and>
         map_of r ''primary_detection'' = None \<and>
         map_of r ''top_predictions'' = None"
    by simp
next
  fix e w1 assume "run_inference env self p w = (Inl e, w1)"
  then show "detect_sign_body env self p w = (Inl e, w1)" by (rule run_failure_body)
next
  fix e w1 assume "preprocess_image env p (224, 224) w = (Inl e, w1)"
  then show "run_inference env self p w = (Inl e, w1)" by (rule preprocess_failure_run)
qed

theorem detect_sign_never_raises_witness:
  "fst (detect_sign (gtsrb_env stop_scores) (gtsrb_detector (3 / 10)) ''missing.png'' 0) =
     Inr [(''image_path'', PStr ''missing.png''),
          (''timestamp'', PStr ''2024-01-01T00:00:00''),
          (''error'', PStr ''No such file or directory''),
          (''detected'', PBool False)] \<and>
   map_of (projr (fst (detect_sign (gtsrb_env stop_scores) (gtsrb_detector (3 / 10)) ''missing.png'' 0)))
     ''error'' = Some (PStr ''No such file or directory'')"
proof -
  from detect_sign_never_raises[of "gtsrb_env stop_scores" "gtsrb_detector (3 / 10)" "''missing.png''" 0]
  have "\<exists>r w'. detect_sign (gtsrb_env stop_scores) (gtsrb_detector (3 / 10)) ''missing.png'' 0 = (Inr r, w') \<and>
         map_of r ''error'' = Some (PStr (message (Exn ''No such file or directory'')))"
    using missing_body[of stop_scores "3 / 10" 0] by blast
  moreover have "fst (detect_sign (gtsrb_env stop_scores) (gtsrb_detector (3 / 10)) ''missing.png'' 0) =
     Inr [(''image_path'', PStr ''missing.png''),
          (''timestamp'', PStr ''2024-01-01T00:00:00''),
          (''error'', PStr ''No such file or directory''),
          (''detected'', PBool False)]"
    by (simp add: detect_sign_error[OF missing_body] demo_now)
  ultimately show ?thesis by auto
qed

text \<open>
  C10. Whenever the \<^verbatim>\<open>try\<close> block raises, in particular when preprocessing or
  inference fails, the record that \<^verbatim>\<open>detect_sign\<close> returns has exactly the keys
  \<^verbatim>\<open>image_path\<close>, \<^verbatim>\<open>timestamp\<close>, \<^verbatim>\<open>error\<close> and \<^verbatim>\<open>detected\<close>: the keys
  \<^verbatim>\<open>top_predictions\<close>, \<^verbatim>\<open>inference_time_ms\<close> and \<^verbatim>\<open>model_info\<close> are absent.
\<close>

theorem error_record_fields:
  assumes "detect_sign_body env self p w = (Inl e, w1)"
  shows "\<exists>r w'. detect_sign env self p w = (Inr r, w') \<and>
      map fst r = [''image_path'', ''timestamp'', ''error'', ''detected''] \<and>
      map_of r ''top_predictions'' = None \<and>
      map_of r ''inference_time_ms'' = None \<and>
      map_of r ''model_info'' = None"
  using detect_sign_error[OF assms] by simp

theorem error_record_fields_witness:
  "map fst (projr (fst (detect_sign (gtsrb_env stop_scores) (gtsrb_detector (3 / 10)) ''missing.png'' 0)))
     = [''image_path'', ''timestamp'', ''error'', ''detected''] \<and>
   map_of (projr (fst (detect_sign (gtsrb_env stop_scores) (gtsrb_detector (3 / 10)) ''missing.png'' 0)))
     ''model_info'' = None"
  using error_record_fields[OF missing_body, of stop_scores "3 / 10" 0] by auto

section \<open>Batches\<close>

text \<open>
  C4. For every list of paths, \<^verbatim>\<open>detect_batch\<close> returns a list (it never raises) of the
  same length, and the result at position \<open>i\<close> is the record \<^verbatim>\<open>detect_sign\<close> returns
  for the path at position \<open>i\<close>, run in the world the paths before it have left; its
  \<^verbatim>\<open>image_path\<close> is that path. A path whose detection fails yields its error record and
  the loop goes on.
\<close>

theorem detect_batch_order:
  "\<exists>rs w'. detect_batch env self paths w = (Inr rs, w') \<and>
     length rs = length paths \<and>
     (\<forall>i<length paths.
        map_of (rs ! i) ''image_path'' = Some (PStr (paths ! i)) \<and>
        fst (detect_sign env self (paths ! i) (world_after env self (take i paths) w)) =
          Inr (rs ! i))"
proof -
  from detect_batch_loop_spec[of env self paths "[]" w] obtain rs where
    rs: "detect_batch_loop env self paths [] w = (Inr rs, world_after env self paths w)"
      "length rs = length paths"
      "\<forall>i<length paths.
        detect_sign env self (paths ! i) (world_after env self (take i paths) w) =
          (Inr (rs ! i), world_after env self (take (Suc i) paths) w)"
    by auto
  have "map_of (rs ! i) ''image_path'' = Some (PStr (paths ! i)) \<and>
        fst (detect_sign env self (paths ! i) (world_after env self (take i paths) w)) =
          Inr (rs ! i)" if "i < length paths" for i
  proof -
    from rs(3) that have
      d: "detect_sign env self (paths ! i) (world_after env self (take i paths) w) =
          (Inr (rs ! i), world_after env self (take (Suc i) paths) w)" by blast
    from detect_sign_image_path[OF d] d show ?thesis by simp
  qed
  with rs(1,2) show ?thesis by (auto simp: detect_batch_def)
qed

theorem detect_batch_order_witness:
  "length (projr (fst (detect_batch (gtsrb_env stop_scores) (gtsrb_detector (3 / 10))
     [''a.png'', ''missing.png'', ''c.png''] 0))) = 3 \<and>
   map_of (projr (fst (detect_batch (gtsrb_env stop_scores) (gtsrb_detector (3 / 10))
     [''a.png'', ''missing.png'', ''c.png''] 0)) ! 1) ''image_path'' = Some (PStr ''missing.png'') \<and>
   map_of (projr (fst (detect_batch (gtsrb_env stop_scores) (gtsrb_detector (3 / 10))
     [''a.png'', ''missing.png'', ''c.png''] 0)) ! 1) ''error'' =
       Some (PStr ''No such file or directory'') \<and>
   map_of (projr (fst (detect_batch (gtsrb_env stop_scores) (gtsrb_detector (3 / 10))
     [''a.png'', ''missing.png'', ''c.png''] 0)) ! 2) ''image_path'' = Some (PStr ''c.png'')"
proof -
  from detect_batch_order[of "gtsrb_env stop_scores" "gtsrb_detector (3 / 10)"
      "[''a.png'', ''missing.png'', ''c.png'']" 0]
  obtain rs w' where
    rs: "detect_batch (gtsrb_env stop_scores) (gtsrb_detector (3 / 10))
          [''a.png'', ''missing.png'', ''c.png''] 0 = (Inr rs, w')"
      "length rs = length [''a.png'', ''missing.png'', ''c.png'']"
      "\<forall>i<length [''a.png'', ''missing.png'', ''c.png''].
         map_of (rs ! i) ''image_path'' = Some (PStr ([''a.png'', ''missing.png'', ''c.png''] ! i))"
    by blast
  from rs(3) have "map_of (rs ! 1) ''image_path'' = Some (PStr ''missing.png'')"
    and "map_of (rs ! 2) ''image_path'' = Some (PStr ''c.png'')"
    by force+
  moreover from rs(1) demo_batch have "map_of (rs ! 1) ''error'' = Some (PStr ''No such file or directory'')"
    by auto
  ultimately show ?thesis using rs(1,2) by simp
qed

section \<open>The summary\<close>

text \<open>
  C5. For every list of result records (records whose \<^verbatim>\<open>detected\<close> is a boolean and
  whose inference time, where present, is a float, as \<^verbatim>\<open>detect_sign\<close> builds them), the
  summary that \<^verbatim>\<open>save_results_to_json\<close> builds has: \<^verbatim>\<open>total_images\<close> the number of
  records; \<^verbatim>\<open>successful_detections\<close> the number of records with \<^verbatim>\<open>detected\<close> true;
  \<^verbatim>\<open>failed_detections\<close> their difference; \<^verbatim>\<open>success_rate\<close> the value of
  \<^verbatim>\<open>round(successful / total * 100, 2)\<close>, and the integer 0 for no records;
  \<^verbatim>\<open>average_inference_time_ms\<close> the value of \<^verbatim>\<open>round(np.mean(times), 2)\<close> with
  \<open>times\<close> the times of exactly the records that carry one, in their order, and the
  integer 0 when none does. Building the summary never raises. The division, the
  product, the mean and the two roundings are the operations of Python and numpy on
  floats, applied to these operands in this order.
\<close>

theorem summary_statistics:
  assumes "\<forall>r\<in>set results. result_record r"
  shows "\<exists>out w'. build_output_data env results w = (Inr out, w') \<and>
     summary_field out ''total_images'' = Some (PInt (int (length results))) \<and>
     summary_field out ''successful_detections'' =
       Some (PInt (int (length (filter (\<lambda>r. map_of r ''detected'' = Some (PBool True)) results)))) \<and>
     summary_field out ''failed_detections'' =
       Some (PInt (int (length results) -
               int (length (filter (\<lambda>r. map_of r ''detected'' = Some (PBool True)) results)))) \<and>
     summary_field out ''success_rate'' =
       Some (if 0 < length results
             then PFloat (float_round2 env (float_mul env
                    (int_truediv env
                       (int (length (filter (\<lambda>r. map_of r ''detected'' = Some (PBool True)) results)))
                       (int (length results)))
                    (Fin 100)))
             else PInt 0) \<and>
     summary_field out ''average_inference_time_ms'' =
       Some (if timings results \<noteq> []
             then PFloat (np_float64_round2 env (np_mean env (timings results)))
             else PInt 0)"
  by (simp add: build_output_data_summary[OF assms] summary_field_def)

theorem summary_statistics_witness:
  "\<exists>out w'. build_output_data (gtsrb_env stop_scores)
       (projr (fst (detect_batch (gtsrb_env stop_scores) (gtsrb_detector (3 / 10))
          [''a.png'', ''missing.png'', ''c.png''] 0))) 7 = (Inr out, w') \<and>
     summary_field out ''total_images'' = Some (PInt 3) \<and>
     summary_field out ''successful_detections'' = Some (PInt 2) \<and>
     summary_field out ''failed_detections'' = Some (PInt 1) \<and>
     summary_field out ''success_rate'' = Some (PFloat (Fin (double (6667 / 100)))) \<and>
     summary_field out ''average_inference_time_ms'' = Some (PFloat (Fin 1000))"
proof -
  let ?rs = "[success_record (gtsrb_env stop_scores) (gtsrb_detector (3 / 10)) ''a.png'' stop_scores
                (Fin 1) ''2024-01-01T00:00:00'' 14,
              [(''image_path'', PStr ''missing.png''),
               (''timestamp'', PStr ''2024-01-01T00:00:00''),
               (''error'', PStr ''No such file or directory''),
               (''detected'', PBool False)],
              success_record (gtsrb_env stop_scores) (gtsrb_detector (3 / 10)) ''c.png'' stop_scores
                (Fin 1) ''2024-01-01T00:00:00'' 14]"
  have rs: "projr (fst (detect_batch (gtsrb_env stop_scores) (gtsrb_detector (3 / 10))
          [''a.png'', ''missing.png'', ''c.png''] 0)) = ?rs"
    by (simp add: demo_batch)
  have succ: "filter (\<lambda>r. map_of r ''detected'' = Some (PBool True)) ?rs = [?rs ! 0, ?rs ! 2]"
    by (simp add: stop_record_detected)
  have tm: "timings ?rs = [Fin 1000, Fin 1000]"
    by (simp add: timings_def stop_record_time)
  from summary_statistics[OF demo_batch_records, of "gtsrb_env stop_scores" 7]
  show ?thesis
    unfolding rs succ tm by (simp add: demo_rate_2_of_3 demo_mean_1000)
qed

section \<open>Loading the model\<close>

text \<open>
  C8. The claim fails: \<^verbatim>\<open>_load_model\<close> reads the declared shapes only to log them. A
  model that declares the input shape (1, 32, 32, 3) and the output shape (1, 10) loads,
  and the detector holds these shapes.
\<close>

theorem load_model_shape_counterexample:
  "load_model (demo_env [1, 32, 32, 3] [1, 10] stop_scores) ''models/gtsrb_model.lite'' (3 / 10) 0 =
     (Inr (demo_detector [1, 32, 32, 3] [1, 10] (3 / 10)), 0)"
  by (simp add: load_model_def py_defs getitem_def demo_env_def demo_detector_def)

text \<open>
  C8, amended. \<^verbatim>\<open>_load_model\<close> checks no shape. It succeeds whenever the interpreter is
  built, its tensors are allocated and it declares an input and an output tensor,
  whatever their shapes, and the detector stores the declared details unchanged. When
  it raises, the exception is the one the interpreter's constructor or
  \<^verbatim>\<open>allocate_tensors\<close> raised, or a list of details is empty.
\<close>

theorem load_model_no_shape_check:
  "(\<forall>h w1 u w2.
      tflite_Interpreter env path w = (Inr h, w1) \<and> allocate_tensors env h w1 = (Inr u, w2) \<and>
      get_input_details env h \<noteq> [] \<and> get_output_details env h \<noteq> [] \<longrightarrow>
      load_model env path t w =
        (Inr \<lparr> model_path = path, confidence_threshold = t, interpreter = h,
               input_details = get_input_details env h,
               output_details = get_output_details env h \<rparr>, w2)) \<and>
   (\<forall>e w'. load_model env path t w = (Inl e, w') \<longrightarrow>
      tflite_Interpreter env path w = (Inl e, w') \<or>
      (\<exists>h w1. tflite_Interpreter env path w = (Inr h, w1) \<and>
         (allocate_tensors env h w1 = (Inl e, w') \<or>
          get_input_details env h = [] \<or> get_output_details env h = [])))"
proof (intro conjI allI impI)
  fix h w1 u w2
  assume "tflite_Interpreter env path w = (Inr h, w1) \<and> allocate_tensors env h w1 = (Inr u, w2) \<and>
      get_input_details env h \<noteq> [] \<and> get_output_details env h \<noteq> []"
  then show "load_model env path t w =
        (Inr \<lparr> model_path = path, confidence_threshold = t, interpreter = h,
               input_details = get_input_details env h,
               output_details = get_output_details env h \<rparr>, w2)"
    by (intro load_model_success) auto
next
  fix e w'
  assume "load_model env path t w = (Inl e, w')"
  then show "tflite_Interpreter env path w = (Inl e, w') \<or>
      (\<exists>h w1. tflite_Interpreter env path w = (Inr h, w1) \<and>
         (allocate_tensors env h w1 = (Inl e, w') \<or>
          get_input_details env h = [] \<or> get_output_details env h = []))"
    by (rule load_model_failure)
qed

theorem load_model_no_shape_check_witness:
  "input_details (projr (fst (load_model (demo_env [1, 32, 32, 3] [1, 10] stop_scores)
      ''models/gtsrb_model.lite'' (3 / 10) 0))) = [\<lparr> td_index = 0, td_shape = [1, 32, 32, 3] \<rparr>] \<and>
   output_details (projr (fst (load_model (demo_env [1, 32, 32, 3] [1, 10] stop_scores)
      ''models/gtsrb_model.lite'' (3 / 10) 0))) = [\<lparr> td_index = 1, td_shape = [1, 10] \<rparr>]"
proof -
  have a: "tflite_Interpreter (demo_env [1, 32, 32, 3] [1, 10] stop_scores) ''models/gtsrb_model.lite'' 0
      = (Inr (), 0)"
    and b: "allocate_tensors (demo_env [1, 32, 32, 3] [1, 10] stop_scores) () 0 = (Inr (), 0)"
    and c: "get_input_details (demo_env [1, 32, 32, 3] [1, 10] stop_scores) () =
      [\<lparr> td_index = 0, td_shape = [1, 32, 32, 3] \<rparr>]"
    and d: "get_output_details (demo_env [1, 32, 32, 3] [1, 10] stop_scores) () =
      [\<lparr> td_index = 1, td_shape = [1, 10] \<rparr>]"
    by (simp_all add: demo_env_def)
  from load_model_no_shape_check[of "demo_env [1, 32, 32, 3] [1, 10] stop_scores"
      "''models/gtsrb_model.lite''" 0 "3 / 10"] a b c d
  have "load_model (demo_env [1, 32, 32, 3] [1, 10] stop_scores) ''models/gtsrb_model.lite'' (3 / 10) 0 =
     (Inr \<lparr> model_path = ''models/gtsrb_model.lite'', confidence_threshold = 3 / 10,
            interpreter = (),
            input_details = [\<lparr> td_index = 0, td_shape = [1, 32, 32, 3] \<rparr>],
            output_details = [\<lparr> td_index = 1, td_shape = [1, 10] \<rparr>] \<rparr>, 0)"
    by simp
  then show ?thesis by simp
qed

section \<open>Preprocessing\<close>

text \<open>
  C9. For every image that PIL decodes, with a \<^verbatim>\<open>resize\<close> that returns an image of the
  size it was asked for, \<^verbatim>\<open>preprocess_image\<close> returns an array of dtype float32 and shape
  (1, 224, 224, 3) with 1 * 224 * 224 * 3 samples, each the channel value of the resized
  RGB image divided by 255, so between 0 and 1. The world is left as decoding left it.
\<close>

theorem preprocess_image_tensor:
  assumes "Image_open_convert_RGB env p w = (Inr img, w1)"
    and "im_size (Image_resize env img (224, 224)) = (224, 224)"
    and "length (im_pixels (Image_resize env img (224, 224))) = 224 * 224"
  shows "\<exists>a. preprocess_image env p (224, 224) w = (Inr a, w1) \<and>
     nd_dtype a = Float32 \<and>
     nd_shape a = [1, 224, 224, 3] \<and>
     length (nd_data a) = 1 * 224 * 224 * 3 \<and>
     nd_data a =
       concat (map (\<lambda>(r, g, b). [of_nat (unat r) / 255, of_nat (unat g) / 255, of_nat (unat b) / 255])
                (im_pixels (Image_resize env img (224, 224)))) \<and>
     (\<forall>x\<in>set (nd_data a). 0 \<le> x \<and> x \<le> 1)"
proof -
  let ?img = "Image_resize env img (224, 224)"
  let ?a = "\<lparr> nd_dtype = Float32, nd_shape = [1, snd (im_size ?img), fst (im_size ?img), 3],
            nd_data = map (\<lambda>x. x / 255) (nd_data (np_array_float32 ?img)) \<rparr>"
  have res: "preprocess_image env p (224, 224) w = (Inr ?a, w1)"
    using assms(1) by (rule preprocess_image_result)
  have shape: "nd_shape ?a = [1, 224, 224, 3]" by (simp add: assms(2))
  have len: "length (nd_data ?a) = 1 * 224 * 224 * 3"
    by (simp add: np_array_float32_length assms(3))
  have data: "nd_data ?a =
       concat (map (\<lambda>(r, g, b). [of_nat (unat r) / 255, of_nat (unat g) / 255, of_nat (unat b) / 255])
                (im_pixels ?img))"
    by (simp add: np_array_float32_def map_concat comp_def split_def)
  have range: "\<forall>x\<in>set (nd_data ?a). 0 \<le> x \<and> x \<le> 1"
    using np_array_float32_range[of ?img] by auto
  show ?thesis
    apply (rule exI[of _ ?a])
    apply (intro conjI)
         apply (rule res)
        apply simp
       apply (rule shape)
      apply (rule len)
     apply (rule data)
    apply (rule range)
    done
qed

theorem preprocess_image_tensor_witness:
  "nd_dtype (projr (fst (preprocess_image (gtsrb_env stop_scores) ''stop.png'' (224, 224) 0))) = Float32 \<and>
   nd_shape (projr (fst (preprocess_image (gtsrb_env stop_scores) ''stop.png'' (224, 224) 0)))
     = [1, 224, 224, 3] \<and>
   length (nd_data (projr (fst (preprocess_image (gtsrb_env stop_scores) ''stop.png'' (224, 224) 0))))
     = 150528 \<and>
   list_all (\<lambda>x. 0 \<le> x \<and> x \<le> 1)
     (nd_data (projr (fst (preprocess_image (gtsrb_env stop_scores) ''stop.png'' (224, 224) 0))))"
proof -
  from preprocess_image_tensor[OF demo_open demo_resize]
  obtain a where
    a: "preprocess_image (gtsrb_env stop_scores) ''stop.png'' (224, 224) 0 = (Inr a, 0)"
       "nd_dtype a = Float32" "nd_shape a = [1, 224, 224, 3]"
       "length (nd_data a) = 1 * 224 * 224 * 3"
       "\<forall>x\<in>set (nd_data a). 0 \<le> x \<and> x \<le> 1"
    by blast
  from a(1) have "projr (fst (preprocess_image (gtsrb_env stop_scores) ''stop.png'' (224, 224) 0)) = a"
    by simp
  with a(2-5) show ?thesis by (simp add: list_all_iff)
qed

end
